theory Spec2Isabelle
  imports Complex_Main "HOL-Library.Word" "HOL-Library.Code_Target_Nat"
begin

section \<open>Force feedback effects (ForceFeedbackEffect.cpp)\<close>

text \<open>
  The declarations of \<^verbatim>\<open>ForceFeedbackTypes.h\<close> and \<^verbatim>\<open>ForceFeedbackEffect.h\<close> are not
  part of the sources at hand, only the method bodies of \<^verbatim>\<open>ForceFeedbackEffect.cpp\<close> are.
  Effect times (\<^verbatim>\<open>TEffectTimeMs\<close>) are unsigned 32-bit millisecond counts; effect values
  (\<^verbatim>\<open>TEffectValue\<close>) are single-precision floats in the source and are carried as real
  numbers here. In \<^verbatim>\<open>ComputePhase\<close>, whose result is rounded to an integer and compared
  with 36000, every floating-point operation is rounded to single precision. In the
  envelope and magnitude computations the values are idealised: what is stated about
  those functions is which branch is taken and which fault is raised.
\<close>

type_synonym TEffectTimeMs = "32 word"
type_synonym TEffectValue = real

text \<open>
  Modelled from the spec: the force magnitude constants of \<^verbatim>\<open>ForceFeedbackTypes.h\<close>
  (\<open>kForceMax = 10000\<close>, \<open>kForceMin = -10000\<close>) and the angle bounds
  (\<open>kAngleMax = 35999\<close> centidegrees).
\<close>

definition kEffectForceMagnitudeMaximum :: TEffectValue where
  "kEffectForceMagnitudeMaximum = 10000"

definition kEffectForceMagnitudeMinimum :: TEffectValue where
  "kEffectForceMagnitudeMinimum = - 10000"

definition kEffectForceMagnitudeZero :: TEffectValue where
  "kEffectForceMagnitudeZero = 0"

definition kEffectAngleMinimum :: TEffectValue where
  "kEffectAngleMinimum = 0"

definition kEffectAngleMaximum :: TEffectValue where
  "kEffectAngleMaximum = 35999"

record SEnvelope =
  attackTime :: TEffectTimeMs
  attackLevel :: TEffectValue
  fadeTime :: TEffectTimeMs
  fadeLevel :: TEffectValue

text \<open>
  The common parameters read by \<^verbatim>\<open>ForceFeedbackEffect.cpp\<close>: \<open>duration\<close> and
  \<open>envelope\<close> are \<^verbatim>\<open>std::optional\<close>. \<open>startDelay\<close> and \<open>samplePeriod\<close> are the
  application-visible values named by the spec; the computations read only
  \<open>samplePeriodForComputations\<close>.
\<close>

record SCommonParameters =
  duration :: "TEffectTimeMs option"
  startDelay :: TEffectTimeMs
  samplePeriod :: TEffectTimeMs
  samplePeriodForComputations :: TEffectTimeMs
  gainFraction :: TEffectValue
  envelope :: "SEnvelope option"

record SConstantForceParameters =
  magnitude :: TEffectValue

record SPeriodicParameters =
  amplitude :: TEffectValue
  offset :: TEffectValue
  phase :: TEffectValue
  period :: TEffectTimeMs

text \<open>
  The two concrete effect classes of the file; each holds its optional type-specific
  parameters (\<^verbatim>\<open>GetTypeSpecificParameters()\<close> returns an optional whose \<^verbatim>\<open>value()\<close>
  is taken unchecked).
\<close>

datatype TypeSpecific =
    ConstantForceEffect "SConstantForceParameters option"
  | SineWaveEffect "SPeriodicParameters option"

record Effect =
  commonParameters :: SCommonParameters
  typeSpecific :: TypeSpecific

text \<open>
  What can go wrong: \<^verbatim>\<open>std::optional::value()\<close> on an empty optional throws
  \<^verbatim>\<open>std::bad_optional_access\<close>; an integer remainder with divisor zero is undefined
  behaviour (a trap on the target). Floating-point division by zero does neither.
\<close>

datatype fault = BadOptionalAccess | DivideByZero

definition AreTypeSpecificParametersValid_Constant :: "SConstantForceParameters \<Rightarrow> bool" where
  "AreTypeSpecificParametersValid_Constant newTypeSpecificParameters \<longleftrightarrow>
     magnitude newTypeSpecificParameters \<ge> kEffectForceMagnitudeMinimum \<and>
     magnitude newTypeSpecificParameters \<le> kEffectForceMagnitudeMaximum"

definition AreTypeSpecificParametersValid_Periodic :: "SPeriodicParameters \<Rightarrow> bool" where
  "AreTypeSpecificParametersValid_Periodic newTypeSpecificParameters =
     (if amplitude newTypeSpecificParameters < 0 \<or>
         amplitude newTypeSpecificParameters > kEffectForceMagnitudeMaximum then False
      else if offset newTypeSpecificParameters < kEffectForceMagnitudeMinimum \<or>
         offset newTypeSpecificParameters > kEffectForceMagnitudeMaximum then False
      else if phase newTypeSpecificParameters < kEffectAngleMinimum \<or>
         phase newTypeSpecificParameters > kEffectAngleMaximum then False
      else if period newTypeSpecificParameters < 1 then False
      else True)"

text \<open>\<^verbatim>\<open>std::round\<close>: to the nearest integer, halfway cases away from zero.\<close>

definition std_round :: "real \<Rightarrow> real" where
  "std_round x = (if 0 \<le> x then of_int \<lfloor>x + 1 / 2\<rfloor> else - of_int \<lfloor>- x + 1 / 2\<rfloor>)"

text \<open>
  Modelled from the spec: \<^verbatim>\<open>TrigonometrySine\<close> of \<^verbatim>\<open>ForceFeedbackMath.h\<close> (not among
  the sources), the sine of an angle given in hundredths of a degree:
  \<open>sin(2\<pi> \<times> phase / 36000)\<close>.
\<close>

definition TrigonometrySine :: "TEffectValue \<Rightarrow> TEffectValue" where
  "TrigonometrySine ph = sin (2 * pi * ph / 36000)"

definition WaveformAmplitude :: "TEffectValue \<Rightarrow> TEffectValue" where
  "WaveformAmplitude ph = TrigonometrySine ph"

text \<open>
  Single precision. A \<^verbatim>\<open>float\<close> is an IEEE 754 binary32 number, and each arithmetic
  operation on floats returns the exact result rounded to the nearest number with a
  significand of 24 bits, a tie going to the even significand. \<open>float32\<close> is that
  rounding, on the reals: for \<open>x\<close> with \<open>2\<^sup>e \<le> |x| < 2\<^sup>e\<^sup>+\<^sup>1\<close> the floats around \<open>x\<close> are
  the multiples of \<open>2\<^sup>e\<^sup>-\<^sup>2\<^sup>3\<close>, and \<open>x\<close> goes to the nearest of them. \<open>binaryExponent\<close>
  finds \<open>e\<close> from the number of binary digits of \<open>\<lfloor>|x|\<rfloor>\<close> when \<open>|x| \<ge> 1\<close> and of
  \<open>\<lceil>1 / |x|\<rceil> - 1\<close> otherwise. The exponent range is not bounded: overflow and subnormal
  numbers are left out, the magnitudes that occur in \<^verbatim>\<open>ComputePhase\<close> for a period of at
  least 1 being zero or between \<open>2\<^sup>-\<^sup>3\<^sup>2\<close> and \<open>2\<^sup>3\<^sup>2\<close>.
\<close>

function bitLength :: "nat \<Rightarrow> nat" where
  "bitLength n = (if n = 0 then 0 else Suc (bitLength (n div 2)))"
  by pat_completeness auto

termination bitLength
  by (relation "measure id") auto

declare bitLength.simps [simp del]

definition binaryExponent :: "real \<Rightarrow> int" where
  "binaryExponent x =
     (if 1 \<le> \<bar>x\<bar> then int (bitLength (nat \<lfloor>\<bar>x\<bar>\<rfloor>)) - 1
      else - int (bitLength (nat (\<lceil>1 / \<bar>x\<bar>\<rceil> - 1))))"

definition pow2 :: "int \<Rightarrow> real" where
  "pow2 e = (if 0 \<le> e then 2 ^ nat e else 1 / 2 ^ nat (- e))"

definition roundTiesToEven :: "real \<Rightarrow> int" where
  "roundTiesToEven x =
     (let f = \<lfloor>x\<rfloor>; d = x - of_int f
      in if d < 1 / 2 then f else if 1 / 2 < d then f + 1 else if even f then f else f + 1)"

definition float32 :: "real \<Rightarrow> real" where
  "float32 x =
     (if x = 0 then 0
      else (let e = binaryExponent x; u = pow2 (e - 23)
            in u * of_int (roundTiesToEven (x / u))))"

text \<open>
  \<^verbatim>\<open>PeriodicEffect::ComputePhase\<close>, operation by operation: the conversions of the raw
  time and of the period to \<^verbatim>\<open>TEffectValue\<close>, the division, the subtraction of
  \<^verbatim>\<open>floorf\<close>, the multiplication by 36000, the addition of the phase and the final
  subtraction of 36000 are each rounded to single precision; \<^verbatim>\<open>floorf\<close> and
  \<^verbatim>\<open>std::round\<close> are exact. A period of 0, which the parameter check refuses, would
  divide by zero in floating point and is outside what the equation below describes.
\<close>

definition ComputePhase :: "SPeriodicParameters option \<Rightarrow> TEffectTimeMs \<Rightarrow> fault + TEffectValue" where
  "ComputePhase params rawTime =
     (case params of
        None \<Rightarrow> Inl BadOptionalAccess
      | Some p \<Rightarrow>
          (let kRawTimeInPeriods =
                 float32 (float32 (real (unat rawTime)) / float32 (real (unat (period p))));
               currentPhase =
                 std_round
                   (float32 (float32 (float32 (kRawTimeInPeriods - of_int \<lfloor>kRawTimeInPeriods\<rfloor>)
                                        * 36000)
                             + phase p))
           in Inr (if currentPhase \<ge> 36000 then float32 (currentPhase - 36000)
                   else currentPhase)))"

text \<open>
  \<^verbatim>\<open>Effect::ApplyEnvelope\<close>. The attack branch is tried first; the condition of the fade
  branch already evaluates \<^verbatim>\<open>commonParameters.duration.value()\<close>. The subtraction
  \<open>duration - fadeTime\<close> is unsigned and wraps.
\<close>

definition ApplyEnvelope :: "SCommonParameters \<Rightarrow> TEffectTimeMs \<Rightarrow> TEffectValue \<Rightarrow> fault + TEffectValue" where
  "ApplyEnvelope cp rawTime sustainLevel =
     (case envelope cp of
        None \<Rightarrow> Inr sustainLevel
      | Some env \<Rightarrow>
          if rawTime < attackTime env then
            (let envelopeTime = rawTime;
                 envelopeSlope = (sustainLevel - attackLevel env) / real (unat (attackTime env))
             in Inr (attackLevel env + (envelopeSlope * real (unat envelopeTime))))
          else
            (case duration cp of
               None \<Rightarrow> Inl BadOptionalAccess
             | Some d \<Rightarrow>
                 if rawTime > d - fadeTime env then
                   (let envelopeTime = rawTime - (d - fadeTime env);
                        envelopeSlope = (fadeLevel env - sustainLevel) / real (unat (fadeTime env))
                    in Inr (sustainLevel + (envelopeSlope * real (unat envelopeTime))))
                 else Inr sustainLevel))"

text \<open>
  \<^verbatim>\<open>ConstantForceEffect::ComputeRawMagnitude\<close> and \<^verbatim>\<open>PeriodicEffect::ComputeRawMagnitude\<close>,
  the two overriders of the virtual method, selected by the class of the effect.
\<close>

definition ComputeRawMagnitude :: "Effect \<Rightarrow> TEffectTimeMs \<Rightarrow> fault + TEffectValue" where
  "ComputeRawMagnitude e rawTime =
     (case typeSpecific e of
        ConstantForceEffect params \<Rightarrow>
          (case params of
             None \<Rightarrow> Inl BadOptionalAccess
           | Some p \<Rightarrow>
               (let kMagnitude = magnitude p in
                if kMagnitude \<ge> 0 then ApplyEnvelope (commonParameters e) rawTime kMagnitude
                else
                  (case ApplyEnvelope (commonParameters e) rawTime (- kMagnitude) of
                     Inl f \<Rightarrow> Inl f
                   | Inr v \<Rightarrow> Inr (- v))))
      | SineWaveEffect params \<Rightarrow>
          (case params of
             None \<Rightarrow> Inl BadOptionalAccess
           | Some p \<Rightarrow>
               (case ApplyEnvelope (commonParameters e) rawTime (amplitude p) of
                  Inl f \<Rightarrow> Inl f
                | Inr kModifiedAmplitude \<Rightarrow>
                    (case ComputePhase params rawTime of
                       Inl f \<Rightarrow> Inl f
                     | Inr ph \<Rightarrow>
                         (let kRawMagnitude = (kModifiedAmplitude * WaveformAmplitude ph) + offset p
                          in Inr (min kEffectForceMagnitudeMaximum
                                   (max kEffectForceMagnitudeMinimum kRawMagnitude)))))))"

text \<open>
  \<^verbatim>\<open>Effect::ComputeMagnitude\<close>. \<^verbatim>\<open>duration.value_or(0)\<close> reads an absent duration as 0;
  the comparison is unsigned. The remainder is taken with no check of the divisor.
\<close>

definition ComputeMagnitude :: "Effect \<Rightarrow> TEffectTimeMs \<Rightarrow> fault + TEffectValue" where
  "ComputeMagnitude e time =
     (if time \<ge> (case duration (commonParameters e) of None \<Rightarrow> 0 | Some d \<Rightarrow> d)
      then Inr kEffectForceMagnitudeZero
      else if samplePeriodForComputations (commonParameters e) = 0 then Inl DivideByZero
      else
        (let rawTime = time - (time mod samplePeriodForComputations (commonParameters e))
         in case ComputeRawMagnitude e rawTime of
              Inl f \<Rightarrow> Inl f
            | Inr m \<Rightarrow> Inr (m * gainFraction (commonParameters e))))"



subsection \<open>The phase formula as the specification words it\<close>

text \<open>
  The specification's phase: \<open>((t / period) - \<lfloor>t / period\<rfloor>) \<times> 36000 + phase\<^sub>0\<close>, wrapped
  modulo 36000, with no rounding step.
\<close>

definition wrap36000 :: "real \<Rightarrow> real" where
  "wrap36000 x = x - 36000 * of_int \<lfloor>x / 36000\<rfloor>"

definition phase_now_spec :: "TEffectTimeMs \<Rightarrow> TEffectTimeMs \<Rightarrow> real \<Rightarrow> real" where
  "phase_now_spec t per phase0 =
     wrap36000 (((real (unat t) / real (unat per)) - of_int \<lfloor>real (unat t) / real (unat per)\<rfloor>)
                * 36000 + phase0)"

subsection \<open>Sample effects\<close>

definition effectNoDuration :: Effect where
  "effectNoDuration =
     \<lparr>commonParameters =
        \<lparr>duration = None, startDelay = 0, samplePeriod = 0, samplePeriodForComputations = 1,
         gainFraction = 1, envelope = None\<rparr>,
      typeSpecific = ConstantForceEffect (Some \<lparr>magnitude = 5000\<rparr>)\<rparr>"

definition effectWithDuration :: Effect where
  "effectWithDuration =
     \<lparr>commonParameters =
        \<lparr>duration = Some 1000, startDelay = 0, samplePeriod = 0, samplePeriodForComputations = 1,
         gainFraction = 1 / 2, envelope = None\<rparr>,
      typeSpecific = ConstantForceEffect (Some \<lparr>magnitude = 5000\<rparr>)\<rparr>"

definition periodic64 :: SPeriodicParameters where
  "periodic64 = \<lparr>amplitude = 1000, offset = 0, phase = 0, period = 64\<rparr>"

definition envelopeNoDuration :: SCommonParameters where
  "envelopeNoDuration =
     \<lparr>duration = None, startDelay = 0, samplePeriod = 0, samplePeriodForComputations = 1,
      gainFraction = 1,
      envelope = Some \<lparr>attackTime = 10, attackLevel = 0, fadeTime = 10, fadeLevel = 0\<rparr>\<rparr>"

definition periodic1600 :: SPeriodicParameters where
  "periodic1600 = \<lparr>amplitude = 1000, offset = 0, phase = 0, period = 1600\<rparr>"

definition periodic3 :: SPeriodicParameters where
  "periodic3 = \<lparr>amplitude = 1000, offset = 0, phase = 0, period = 3\<rparr>"

definition periodic2 :: SPeriodicParameters where
  "periodic2 = \<lparr>amplitude = 1000, offset = 0, phase = 0, period = 2\<rparr>"

definition periodic4 :: SPeriodicParameters where
  "periodic4 = \<lparr>amplitude = 1000, offset = 0, phase = 0, period = 4\<rparr>"




section \<open>Direction vectors: polar and spherical coordinates\<close>


definition kSqrt3 :: TEffectValue where
  "kSqrt3 = 14529495 / 8388608"






section \<open>State change event buffer (StateChangeEventBuffer.h)\<close>

text \<open>
  The header declares the event types and the inline accessors; the bodies of
  \<^verbatim>\<open>AppendEvent\<close>, \<^verbatim>\<open>PopOldestEvents\<close> and \<^verbatim>\<open>SetCapacity\<close> are in a file that is not among
  the sources and are not rendered here. The element and value types of \<^verbatim>\<open>ControllerTypes.h\<close> are rendered as the
  tests use them: six axes, sixteen buttons (by index), one POV with four direction
  components.
\<close>

datatype EElementType = Axis | Button | Pov

datatype EAxis = X | Y | Z | RotX | RotY | RotZ

type_synonym EButton = nat

type_synonym UPovDirection = "bool \<times> bool \<times> bool \<times> bool"

datatype SElementIdentifier = ElementAxis EAxis | ElementButton EButton | ElementPov

fun elementType :: "SElementIdentifier \<Rightarrow> EElementType" where
  "elementType (ElementAxis _) = Axis"
| "elementType (ElementButton _) = Button"
| "elementType ElementPov = Pov"

text \<open>The value union; an axis value is an \<^verbatim>\<open>int32_t\<close>, read with \<open>sint\<close>.\<close>

datatype UValue = ValueAxis "32 word" | ValueButton bool | ValuePov UPovDirection

record SEventData =
  element :: SElementIdentifier
  evalue :: UValue

record SEvent =
  data :: SEventData
  timestamp :: "32 word"
  sequence :: "32 word"

text \<open>\<^verbatim>\<open>SEventData::operator==\<close>: the element types and the values are compared.\<close>

definition SEventData_equal :: "SEventData \<Rightarrow> SEventData \<Rightarrow> bool" where
  "SEventData_equal this other =
     (if elementType (element other) \<noteq> elementType (element this) then False
      else evalue other = evalue this)"

text \<open>
  \<^verbatim>\<open>kEventBufferCapacityMax = (1024 * 1024) / sizeof(SEvent)\<close>. The header asserts
  \<^verbatim>\<open>sizeof(SEvent) <= 16\<close>; an event is eight bytes of data and two 32-bit counters.
\<close>

definition sizeof_SEvent :: nat where
  "sizeof_SEvent = 16"

definition kEventBufferCapacityMax :: nat where
  "kEventBufferCapacityMax = (1024 * 1024) div sizeof_SEvent"

text \<open>
  The buffer: a \<^verbatim>\<open>boost::circular_buffer\<close> (its elements, oldest first, and its capacity)
  and the overflow flag. The sequence counter is process-wide in the source; it is carried
  in the state here.
\<close>

record StateChangeEventBuffer =
  eventBuffer :: "SEvent list"
  eventBufferCapacity :: nat
  eventBufferOverflowed :: bool
  nextSequence :: "32 word"

definition newStateChangeEventBuffer :: StateChangeEventBuffer where
  "newStateChangeEventBuffer =
     \<lparr>eventBuffer = [], eventBufferCapacity = 0, eventBufferOverflowed = False,
      nextSequence = 0\<rparr>"

definition GetCapacity :: "StateChangeEventBuffer \<Rightarrow> nat" where
  "GetCapacity b = eventBufferCapacity b"

definition GetCount :: "StateChangeEventBuffer \<Rightarrow> nat" where
  "GetCount b = length (eventBuffer b)"

definition IsEnabled :: "StateChangeEventBuffer \<Rightarrow> bool" where
  "IsEnabled b \<longleftrightarrow> 0 \<noteq> GetCapacity b"

definition IsOverflowed :: "StateChangeEventBuffer \<Rightarrow> bool" where
  "IsOverflowed b = eventBufferOverflowed b"


section \<open>Virtual controller: axis properties\<close>

text \<open>
  Modelled from the spec: the constants of \<^verbatim>\<open>ControllerTypes.h\<close> and
  \<^verbatim>\<open>VirtualController.h\<close> (not among the sources), under the names the tests
  (\<^verbatim>\<open>VirtualControllerTest.cpp\<close>) use and with the values the spec gives.
\<close>

definition kAnalogValueMin :: int where
  "kAnalogValueMin = - 32768"

definition kAnalogValueMax :: int where
  "kAnalogValueMax = 32767"

definition kAnalogValueNeutral :: int where
  "kAnalogValueNeutral = 0"

definition kAxisDeadzoneMin :: nat where
  "kAxisDeadzoneMin = 0"

definition kAxisDeadzoneMax :: nat where
  "kAxisDeadzoneMax = 10000"

definition kAxisDeadzoneDefault :: nat where
  "kAxisDeadzoneDefault = 0"

definition kAxisSaturationMin :: nat where
  "kAxisSaturationMin = 0"

definition kAxisSaturationMax :: nat where
  "kAxisSaturationMax = 10000"

definition kAxisSaturationDefault :: nat where
  "kAxisSaturationDefault = 10000"

definition kRangeMinDefault :: int where
  "kRangeMinDefault = 0"

definition kRangeMaxDefault :: int where
  "kRangeMaxDefault = 65535"

text \<open>
  The properties of one axis: deadzone and saturation are unsigned, the range bounds are
  signed 32-bit values (held as integers here: the properties below do not depend on
  wrap-around).
\<close>

record SAxisProperties =
  deadzone :: nat
  saturation :: nat
  rangeMin :: int
  rangeMax :: int
  transformationsEnabled :: bool

definition defaultAxisProperties :: SAxisProperties where
  "defaultAxisProperties =
     \<lparr>deadzone = kAxisDeadzoneDefault, saturation = kAxisSaturationDefault,
      rangeMin = kRangeMinDefault, rangeMax = kRangeMaxDefault,
      transformationsEnabled = True\<rparr>"

text \<open>
  The virtual controller state of \<^verbatim>\<open>ControllerTypes.h\<close>: one value per axis, one flag per
  button, the POV direction components.
\<close>

record SState =
  axis :: "EAxis \<Rightarrow> int"
  button :: "EButton \<Rightarrow> bool"
  povDirection :: UPovDirection

text \<open>Integer division as C++ has it, truncating towards zero.\<close>

definition cdiv :: "int \<Rightarrow> int \<Rightarrow> int" where
  "cdiv a b = (if (a < 0) = (b < 0) then \<bar>a\<bar> div \<bar>b\<bar> else - (\<bar>a\<bar> div \<bar>b\<bar>))"

text \<open>
  Modelled from the spec: the axis transformation of \<^verbatim>\<open>VirtualController::ApplyProperties\<close>
  (not among the sources). The cutoffs are
  \<open>dz_cut = kAnalogMax \<times> (deadzone / kAxisDeadzoneMax)\<close> and
  \<open>sat_cut = kAnalogMax \<times> (saturation / kAxisSaturationMax)\<close>, applied symmetrically about
  0; the neutral value of the range is \<open>(range.min + range.max) / 2\<close>, an integer division
  as in the tests. The five regions are tried in the order the spec lists them. The spec
  leaves the rounding of the two linear regions open and asks that the output be clamped
  into the range whatever the rounding; the rounding is a parameter \<open>rnd\<close> here. The
  repository's test of the transformation computes the cutoffs as integers, the
  negative ones from \<open>kAnalogValueMin\<close>, and expects the neutral value on the whole closed
  deadzone interval; where the two descriptions differ this rendering follows the
  specification. The statements below on the property setters and on the force feedback
  registration read the axis properties and the registration state only, never a
  transformed axis value.
\<close>

definition deadzoneCutoff :: "SAxisProperties \<Rightarrow> real" where
  "deadzoneCutoff p = real_of_int kAnalogValueMax * (real (deadzone p) / real kAxisDeadzoneMax)"

definition saturationCutoff :: "SAxisProperties \<Rightarrow> real" where
  "saturationCutoff p =
     real_of_int kAnalogValueMax * (real (saturation p) / real kAxisSaturationMax)"

definition rangeNeutral :: "SAxisProperties \<Rightarrow> int" where
  "rangeNeutral p = cdiv (rangeMin p + rangeMax p) 2"

definition linearBetween :: "int \<Rightarrow> int \<Rightarrow> real \<Rightarrow> real \<Rightarrow> real \<Rightarrow> real" where
  "linearBetween outLow outHigh inLow inHigh v =
     real_of_int outLow + real_of_int (outHigh - outLow) * ((v - inLow) / (inHigh - inLow))"

definition unroundedAxisValue :: "SAxisProperties \<Rightarrow> int \<Rightarrow> real" where
  "unroundedAxisValue p v =
     (let dz = deadzoneCutoff p; sat = saturationCutoff p; x = real_of_int v in
      if x \<le> - sat then real_of_int (rangeMin p)
      else if x \<le> - dz then linearBetween (rangeMin p) (rangeNeutral p) (- sat) (- dz) x
      else if x \<le> dz then real_of_int (rangeNeutral p)
      else if x \<le> sat then linearBetween (rangeNeutral p) (rangeMax p) dz sat x
      else real_of_int (rangeMax p))"

definition clampToRange :: "SAxisProperties \<Rightarrow> int \<Rightarrow> int" where
  "clampToRange p y = max (rangeMin p) (min (rangeMax p) y)"

definition TransformAxisValue :: "(real \<Rightarrow> int) \<Rightarrow> SAxisProperties \<Rightarrow> int \<Rightarrow> int" where
  "TransformAxisValue rnd p v = clampToRange p (rnd (unroundedAxisValue p v))"

definition ApplyProperties :: "(real \<Rightarrow> int) \<Rightarrow> (EAxis \<Rightarrow> SAxisProperties) \<Rightarrow> SState \<Rightarrow> SState" where
  "ApplyProperties rnd properties s =
     s\<lparr>axis := (\<lambda>a. if transformationsEnabled (properties a)
                     then TransformAxisValue rnd (properties a) (axis s a)
                     else axis s a)\<rparr>"


section \<open>Virtual controller: property setters and force feedback registration\<close>

text \<open>
  Modelled from the spec: the virtual controller object (\<^verbatim>\<open>VirtualController.cpp\<close> is not
  among the sources). Its state is the controller identifier, the properties of each
  axis, the last state received from the mapper before properties are applied, the
  current state after they are applied, the force feedback gain, the event buffer, the
  event filter and the force feedback registration flag. The mapper reference and the
  notification handle play no part below.
\<close>

type_synonym TControllerIdentifier = nat

record VirtualController =
  controllerIdentifier :: TControllerIdentifier
  axisProperties :: "EAxis \<Rightarrow> SAxisProperties"
  stateRaw :: SState
  stateProcessed :: SState
  ffGain :: nat
  eventBufferOf :: StateChangeEventBuffer
  eventFilter :: "SElementIdentifier set"
  ffRegistered :: bool

definition kFfGainMax :: nat where
  "kFfGainMax = 10000"

definition kFfGainDefault :: nat where
  "kFfGainDefault = 10000"

definition neutralState :: SState where
  "neutralState =
     \<lparr>axis = (\<lambda>a. kAnalogValueNeutral), button = (\<lambda>b. False),
      povDirection = (False, False, False, False)\<rparr>"

definition newVirtualController :: "(real \<Rightarrow> int) \<Rightarrow> TControllerIdentifier \<Rightarrow> VirtualController" where
  "newVirtualController rnd cid =
     \<lparr>controllerIdentifier = cid,
      axisProperties = (\<lambda>a. defaultAxisProperties),
      stateRaw = neutralState,
      stateProcessed = ApplyProperties rnd (\<lambda>a. defaultAxisProperties) neutralState,
      ffGain = kFfGainDefault,
      eventBufferOf = newStateChangeEventBuffer,
      eventFilter = {},
      ffRegistered = False\<rparr>"

definition allAxes :: "EAxis list" where
  "allAxes = [X, Y, Z, RotX, RotY, RotZ]"

text \<open>
  A successful property change is applied to the current view of the state at once, as
  the test \<^verbatim>\<open>VirtualController_SetProperty_AutoApplyToExistingState\<close> expects.
\<close>

definition reapplyProperties :: "(real \<Rightarrow> int) \<Rightarrow> VirtualController \<Rightarrow> VirtualController" where
  "reapplyProperties rnd c = c\<lparr>stateProcessed := ApplyProperties rnd (axisProperties c) (stateRaw c)\<rparr>"

definition updateAxis :: "(SAxisProperties \<Rightarrow> SAxisProperties) \<Rightarrow> VirtualController \<Rightarrow> EAxis \<Rightarrow> VirtualController" where
  "updateAxis f c a = c\<lparr>axisProperties := (axisProperties c)(a := f (axisProperties c a))\<rparr>"

text \<open>
  The setters validate first: a deadzone within \<open>[kAxisDeadzoneMin, kAxisDeadzoneMax]\<close>, a
  saturation within \<open>[kAxisSaturationMin, kAxisSaturationMax]\<close>, a range with
  \<open>min < max\<close>. On failure they return \<open>False\<close> and the controller as it was.
\<close>

definition SetAxisDeadzone :: "(real \<Rightarrow> int) \<Rightarrow> EAxis \<Rightarrow> nat \<Rightarrow> VirtualController \<Rightarrow> bool \<times> VirtualController" where
  "SetAxisDeadzone rnd a dz c =
     (if dz \<ge> kAxisDeadzoneMin \<and> dz \<le> kAxisDeadzoneMax
      then (True, reapplyProperties rnd (updateAxis (\<lambda>p. p\<lparr>deadzone := dz\<rparr>) c a))
      else (False, c))"

definition SetAllAxisDeadzone :: "(real \<Rightarrow> int) \<Rightarrow> nat \<Rightarrow> VirtualController \<Rightarrow> bool \<times> VirtualController" where
  "SetAllAxisDeadzone rnd dz c =
     (if dz \<ge> kAxisDeadzoneMin \<and> dz \<le> kAxisDeadzoneMax
      then (True, reapplyProperties rnd (foldl (updateAxis (\<lambda>p. p\<lparr>deadzone := dz\<rparr>)) c allAxes))
      else (False, c))"

definition SetAxisSaturation :: "(real \<Rightarrow> int) \<Rightarrow> EAxis \<Rightarrow> nat \<Rightarrow> VirtualController \<Rightarrow> bool \<times> VirtualController" where
  "SetAxisSaturation rnd a sat c =
     (if sat \<ge> kAxisSaturationMin \<and> sat \<le> kAxisSaturationMax
      then (True, reapplyProperties rnd (updateAxis (\<lambda>p. p\<lparr>saturation := sat\<rparr>) c a))
      else (False, c))"

definition SetAllAxisSaturation :: "(real \<Rightarrow> int) \<Rightarrow> nat \<Rightarrow> VirtualController \<Rightarrow> bool \<times> VirtualController" where
  "SetAllAxisSaturation rnd sat c =
     (if sat \<ge> kAxisSaturationMin \<and> sat \<le> kAxisSaturationMax
      then (True, reapplyProperties rnd (foldl (updateAxis (\<lambda>p. p\<lparr>saturation := sat\<rparr>)) c allAxes))
      else (False, c))"

definition SetAxisRange :: "(real \<Rightarrow> int) \<Rightarrow> EAxis \<Rightarrow> int \<Rightarrow> int \<Rightarrow> VirtualController \<Rightarrow> bool \<times> VirtualController" where
  "SetAxisRange rnd a rmin rmax c =
     (if rmin < rmax
      then (True, reapplyProperties rnd
                    (updateAxis (\<lambda>p. p\<lparr>rangeMin := rmin, rangeMax := rmax\<rparr>) c a))
      else (False, c))"

definition SetAllAxisRange :: "(real \<Rightarrow> int) \<Rightarrow> int \<Rightarrow> int \<Rightarrow> VirtualController \<Rightarrow> bool \<times> VirtualController" where
  "SetAllAxisRange rnd rmin rmax c =
     (if rmin < rmax
      then (True, reapplyProperties rnd
                    (foldl (updateAxis (\<lambda>p. p\<lparr>rangeMin := rmin, rangeMax := rmax\<rparr>)) c allAxes))
      else (False, c))"

definition GetAxisDeadzone :: "VirtualController \<Rightarrow> EAxis \<Rightarrow> nat" where
  "GetAxisDeadzone c a = deadzone (axisProperties c a)"

definition GetAxisSaturation :: "VirtualController \<Rightarrow> EAxis \<Rightarrow> nat" where
  "GetAxisSaturation c a = saturation (axisProperties c a)"

definition GetAxisRange :: "VirtualController \<Rightarrow> EAxis \<Rightarrow> int \<times> int" where
  "GetAxisRange c a = (rangeMin (axisProperties c a), rangeMax (axisProperties c a))"


section \<open>Force feedback registration\<close>

text \<open>
  Modelled from the spec: the registration of virtual controllers with the force feedback
  device of their physical controller (the code is not among the sources; the tests
  \<^verbatim>\<open>VirtualController_ForceFeedback_*\<close> are). Virtual controller objects are identified by
  a handle, their address in the source. Each physical controller keeps the handles of the
  virtual controllers registered with it, and may or may not offer a force feedback
  device. Registering succeeds at once for a controller already registered; otherwise it
  succeeds when the physical controller offers a device, and then records the handle.
  Unregistering and destruction remove the handle.
\<close>

type_synonym VirtualControllerHandle = nat

record System =
  virtualControllers :: "VirtualControllerHandle \<rightharpoonup> VirtualController"
  registeredForForceFeedback :: "TControllerIdentifier \<Rightarrow> VirtualControllerHandle list"
  forceFeedbackAvailable :: "TControllerIdentifier \<Rightarrow> bool"

definition CreateVirtualController :: "(real \<Rightarrow> int) \<Rightarrow> VirtualControllerHandle \<Rightarrow> TControllerIdentifier \<Rightarrow> System \<Rightarrow> System" where
  "CreateVirtualController rnd h cid sys =
     (if h \<in> dom (virtualControllers sys) then sys
      else sys\<lparr>virtualControllers := (virtualControllers sys)(h \<mapsto> newVirtualController rnd cid)\<rparr>)"

definition ForceFeedbackIsRegistered :: "VirtualControllerHandle \<Rightarrow> System \<Rightarrow> bool" where
  "ForceFeedbackIsRegistered h sys =
     (case virtualControllers sys h of None \<Rightarrow> False | Some vc \<Rightarrow> ffRegistered vc)"

definition ForceFeedbackGetDevice :: "VirtualControllerHandle \<Rightarrow> System \<Rightarrow> TControllerIdentifier option" where
  "ForceFeedbackGetDevice h sys =
     (case virtualControllers sys h of
        None \<Rightarrow> None
      | Some vc \<Rightarrow> if ffRegistered vc then Some (controllerIdentifier vc) else None)"

definition IsVirtualControllerRegisteredForForceFeedback :: "TControllerIdentifier \<Rightarrow> VirtualControllerHandle \<Rightarrow> System \<Rightarrow> bool" where
  "IsVirtualControllerRegisteredForForceFeedback cid h sys \<longleftrightarrow>
     h \<in> set (registeredForForceFeedback sys cid)"

definition ForceFeedbackRegister :: "VirtualControllerHandle \<Rightarrow> System \<Rightarrow> bool \<times> System" where
  "ForceFeedbackRegister h sys =
     (case virtualControllers sys h of
        None \<Rightarrow> (False, sys)
      | Some vc \<Rightarrow>
          if ffRegistered vc then (True, sys)
          else if forceFeedbackAvailable sys (controllerIdentifier vc)
          then (True,
                sys\<lparr>virtualControllers := (virtualControllers sys)(h \<mapsto> vc\<lparr>ffRegistered := True\<rparr>),
                    registeredForForceFeedback :=
                      (registeredForForceFeedback sys)
                        (controllerIdentifier vc :=
                           registeredForForceFeedback sys (controllerIdentifier vc) @ [h])\<rparr>)
          else (False, sys))"

definition ForceFeedbackUnregister :: "VirtualControllerHandle \<Rightarrow> System \<Rightarrow> System" where
  "ForceFeedbackUnregister h sys =
     (case virtualControllers sys h of
        None \<Rightarrow> sys
      | Some vc \<Rightarrow>
          if ffRegistered vc
          then sys\<lparr>virtualControllers := (virtualControllers sys)(h \<mapsto> vc\<lparr>ffRegistered := False\<rparr>),
                   registeredForForceFeedback :=
                     (registeredForForceFeedback sys)
                       (controllerIdentifier vc :=
                          removeAll h (registeredForForceFeedback sys (controllerIdentifier vc)))\<rparr>
          else sys)"

definition DestroyVirtualController :: "VirtualControllerHandle \<Rightarrow> System \<Rightarrow> System" where
  "DestroyVirtualController h sys =
     (let sys' = ForceFeedbackUnregister h sys
      in sys'\<lparr>virtualControllers := (virtualControllers sys')(h := None)\<rparr>)"

text \<open>
  The registry and the controllers agree: a handle is recorded with a physical controller
  exactly when it is a live virtual controller of that physical controller with its
  registration flag set, and no handle is recorded twice.
\<close>

definition consistent :: "System \<Rightarrow> bool" where
  "consistent sys \<longleftrightarrow>
     (\<forall>cid h. h \<in> set (registeredForForceFeedback sys cid) \<longleftrightarrow>
        (\<exists>vc. virtualControllers sys h = Some vc \<and> controllerIdentifier vc = cid \<and>
              ffRegistered vc)) \<and>
     (\<forall>cid. distinct (registeredForForceFeedback sys cid))"

definition emptySystem :: "(TControllerIdentifier \<Rightarrow> bool) \<Rightarrow> System" where
  "emptySystem available =
     \<lparr>virtualControllers = Map.empty, registeredForForceFeedback = (\<lambda>cid. []),
      forceFeedbackAvailable = available\<rparr>"

datatype SystemOp =
    OpCreate VirtualControllerHandle TControllerIdentifier
  | OpRegister VirtualControllerHandle
  | OpUnregister VirtualControllerHandle
  | OpDestroy VirtualControllerHandle

fun applySystemOp :: "(real \<Rightarrow> int) \<Rightarrow> System \<Rightarrow> SystemOp \<Rightarrow> System" where
  "applySystemOp rnd sys (OpCreate h cid) = CreateVirtualController rnd h cid sys"
| "applySystemOp rnd sys (OpRegister h) = snd (ForceFeedbackRegister h sys)"
| "applySystemOp rnd sys (OpUnregister h) = ForceFeedbackUnregister h sys"
| "applySystemOp rnd sys (OpDestroy h) = DestroyVirtualController h sys"

definition runSystem :: "(real \<Rightarrow> int) \<Rightarrow> (TControllerIdentifier \<Rightarrow> bool) \<Rightarrow> SystemOp list \<Rightarrow> System" where
  "runSystem rnd available ops = foldl (applySystemOp rnd) (emptySystem available) ops"

definition testSystemOps :: "SystemOp list" where
  "testSystemOps = [OpCreate 7 1, OpCreate 8 1, OpRegister 8]"

definition testAvailable :: "TControllerIdentifier \<Rightarrow> bool" where
  "testAvailable cid = True"


section \<open>Properties of the force feedback effects\<close>

subsection \<open>Rounding to single precision\<close>

lemma roundTiesToEven_of_int: "roundTiesToEven (of_int n) = n"
  by (simp add: roundTiesToEven_def)

lemma roundTiesToEven_lower: "\<lfloor>x\<rfloor> \<le> roundTiesToEven x"
  by (simp add: roundTiesToEven_def Let_def)

lemma roundTiesToEven_upper: "roundTiesToEven x \<le> \<lceil>x\<rceil>"
  unfolding roundTiesToEven_def Let_def by (auto simp: ceiling_altdef)

lemma roundTiesToEven_mono: "x \<le> y \<Longrightarrow> roundTiesToEven x \<le> roundTiesToEven y"
proof -
  assume xy: "x \<le> y"
  have fl: "\<lfloor>x\<rfloor> \<le> \<lfloor>y\<rfloor>" using xy by (rule floor_mono)
  show ?thesis
  proof (cases "\<lfloor>x\<rfloor> = \<lfloor>y\<rfloor>")
    case True
    then show ?thesis using xy unfolding roundTiesToEven_def Let_def by auto
  next
    case False
    then have "\<lfloor>x\<rfloor> + 1 \<le> \<lfloor>y\<rfloor>" using fl by linarith
    moreover have "roundTiesToEven x \<le> \<lfloor>x\<rfloor> + 1" unfolding roundTiesToEven_def Let_def by auto
    moreover have "\<lfloor>y\<rfloor> \<le> roundTiesToEven y" by (rule roundTiesToEven_lower)
    ultimately show ?thesis by linarith
  qed
qed

lemma roundTiesToEven_le: "x \<le> of_int n \<Longrightarrow> roundTiesToEven x \<le> n"
  using roundTiesToEven_mono[of x "of_int n"] by (simp add: roundTiesToEven_of_int)

lemma roundTiesToEven_ge: "of_int n \<le> x \<Longrightarrow> n \<le> roundTiesToEven x"
  using roundTiesToEven_mono[of "of_int n" x] by (simp add: roundTiesToEven_of_int)

lemma bitLength_bounds: "0 < n \<Longrightarrow> 2 ^ (bitLength n - 1) \<le> n \<and> n < 2 ^ bitLength n"
proof (induction n rule: bitLength.induct)
  case (1 n)
  show ?case
  proof (cases "n div 2 = 0")
    case True
    then have "n = 1" using 1(2) by (simp add: div_eq_0_iff)
    moreover have "bitLength (Suc 0) = Suc 0"
      by (simp add: bitLength.simps[of "Suc 0"] bitLength.simps[of 0])
    ultimately show ?thesis by simp
  next
    case False
    then have pos: "0 < n div 2" by simp
    have ih: "2 ^ (bitLength (n div 2) - 1) \<le> n div 2 \<and> n div 2 < 2 ^ bitLength (n div 2)"
      using 1(1) 1(2) pos by simp
    have bl: "bitLength n = Suc (bitLength (n div 2))"
      using 1(2) by (subst bitLength.simps) simp
    have b1: "0 < bitLength (n div 2)"
      using pos by (subst bitLength.simps) simp
    have "2 ^ (bitLength n - 1) = 2 * 2 ^ (bitLength (n div 2) - 1)"
      unfolding bl using b1 by (cases "bitLength (n div 2)") simp_all
    also have "\<dots> \<le> 2 * (n div 2)" using ih by simp
    also have "\<dots> \<le> n" by simp
    finally have lo: "2 ^ (bitLength n - 1) \<le> n" .
    have "n < 2 * (n div 2 + 1)" by presburger
    also have "\<dots> \<le> 2 * 2 ^ bitLength (n div 2)" using ih by simp
    also have "\<dots> = 2 ^ bitLength n" unfolding bl by simp
    finally show ?thesis using lo by simp
  qed
qed

lemma bitLength_pos: "0 < n \<Longrightarrow> 0 < bitLength n"
  by (subst bitLength.simps) simp

lemma pow2_powr: "pow2 e = 2 powr of_int e"
proof (cases "0 \<le> e")
  case True
  have r: "real (nat e) = of_int e" using True by simp
  have "2 powr real (nat e) = (2 :: real) ^ nat e" by (rule powr_realpow) simp
  then have "2 powr of_int e = (2 :: real) ^ nat e" unfolding r .
  then show ?thesis using True by (simp only: pow2_def if_True)
next
  case False
  have r: "real (nat (- e)) = - of_int e" using False by simp
  have "2 powr real (nat (- e)) = (2 :: real) ^ nat (- e)" by (rule powr_realpow) simp
  then have "2 powr (- of_int e) = (2 :: real) ^ nat (- e)" unfolding r .
  then have "2 powr of_int e = 1 / (2 :: real) ^ nat (- e)"
    using powr_minus[of "2 :: real" "- real_of_int e"] by (simp add: inverse_eq_divide)
  then show ?thesis using False by (simp only: pow2_def if_False)
qed

lemma binaryExponent_bounds:
  assumes "x \<noteq> 0"
  shows "2 powr of_int (binaryExponent x) \<le> \<bar>x\<bar>"
    and "\<bar>x\<bar> < 2 powr (of_int (binaryExponent x) + 1)"
proof -
  have both: "2 powr of_int (binaryExponent x) \<le> \<bar>x\<bar> \<and>
      \<bar>x\<bar> < 2 powr (of_int (binaryExponent x) + 1)"
  proof (cases "1 \<le> \<bar>x\<bar>")
    case True
    define a where "a = nat \<lfloor>\<bar>x\<bar>\<rfloor>"
    have apos: "0 < a" using True by (simp add: a_def)
    define n where "n = bitLength a"
    have npos: "0 < n" unfolding n_def using apos by (rule bitLength_pos)
    have bnd: "2 ^ (n - 1) \<le> a" "a < 2 ^ n"
      using bitLength_bounds[OF apos] by (simp_all add: n_def)
    have e: "binaryExponent x = int n - 1" using True by (simp add: binaryExponent_def a_def n_def)
    have e1: "of_int (binaryExponent x) = real (n - 1)" using npos by (simp add: e of_nat_diff)
    have e2: "of_int (binaryExponent x) + 1 = real n" using npos by (simp add: e)
    have ra: "real a = of_int \<lfloor>\<bar>x\<bar>\<rfloor>" using True by (simp add: a_def)
    have al: "real a \<le> \<bar>x\<bar>" unfolding ra by linarith
    have au: "\<bar>x\<bar> < real a + 1" unfolding ra by linarith
    have "(2 :: real) ^ (n - 1) \<le> real a" using of_nat_mono[OF bnd(1), where ?'a = real] by simp
    then have lo: "2 powr of_int (binaryExponent x) \<le> \<bar>x\<bar>"
      unfolding e1 powr_realpow[OF zero_less_numeral] using al by linarith
    have "real a + 1 \<le> (2 :: real) ^ n"
    proof -
      have "Suc a \<le> 2 ^ n" using bnd(2) by simp
      then show ?thesis using of_nat_mono[of "Suc a" "2 ^ n", where ?'a = real] by simp
    qed
    then have hi: "\<bar>x\<bar> < 2 powr (of_int (binaryExponent x) + 1)"
      unfolding e2 powr_realpow[OF zero_less_numeral] using au by linarith
    show ?thesis using lo hi by simp
  next
    case False
    then have x1: "\<bar>x\<bar> < 1" by simp
    have xp: "0 < \<bar>x\<bar>" using assms by simp
    define y where "y = 1 / \<bar>x\<bar>"
    have y1: "1 < y" using x1 xp by (simp add: y_def)
    define a where "a = nat (\<lceil>y\<rceil> - 1)"
    have c2: "2 \<le> \<lceil>y\<rceil>" using y1 by linarith
    have apos: "0 < a" using c2 by (simp add: a_def)
    define n where "n = bitLength a"
    have npos: "0 < n" unfolding n_def using apos by (rule bitLength_pos)
    have bnd: "2 ^ (n - 1) \<le> a" "a < 2 ^ n"
      using bitLength_bounds[OF apos] by (simp_all add: n_def)
    have e: "binaryExponent x = - int n"
      using False by (simp add: binaryExponent_def a_def n_def y_def)
    have ra: "real a = of_int \<lceil>y\<rceil> - 1" using c2 by (simp add: a_def)
    have ay: "real a < y" unfolding ra by linarith
    have ya: "y \<le> real a + 1" unfolding ra by simp
    have "(2 :: real) ^ (n - 1) \<le> real a" using of_nat_mono[OF bnd(1), where ?'a = real] by simp
    then have ylo: "2 ^ (n - 1) < y" using ay by linarith
    have "real a + 1 \<le> (2 :: real) ^ n"
    proof -
      have "Suc a \<le> 2 ^ n" using bnd(2) by simp
      then show ?thesis using of_nat_mono[of "Suc a" "2 ^ n", where ?'a = real] by simp
    qed
    then have yhi: "y \<le> 2 ^ n" using ya by linarith
    have p1: "2 powr of_int (binaryExponent x) = 1 / (2 :: real) ^ n"
      unfolding e by (simp add: powr_minus powr_realpow inverse_eq_divide)
    have "of_int (binaryExponent x) + 1 = - real (n - 1)" using npos by (simp add: e of_nat_diff)
    then have p2: "2 powr (of_int (binaryExponent x) + 1) = 1 / (2 :: real) ^ (n - 1)"
      by (simp add: powr_minus powr_realpow inverse_eq_divide)
    have "1 \<le> 2 ^ n * \<bar>x\<bar>"
      using yhi xp unfolding y_def by (simp add: pos_divide_le_eq)
    then have lo: "1 / (2 :: real) ^ n \<le> \<bar>x\<bar>"
      by (simp add: pos_divide_le_eq mult.commute)
    have "2 ^ (n - 1) * \<bar>x\<bar> < 1"
      using ylo xp unfolding y_def by (simp add: pos_less_divide_eq)
    then have hi: "\<bar>x\<bar> < 1 / (2 :: real) ^ (n - 1)"
      by (simp add: pos_less_divide_eq mult.commute)
    show ?thesis unfolding p1 p2 using lo hi by simp
  qed
  show "2 powr of_int (binaryExponent x) \<le> \<bar>x\<bar>" using both by simp
  show "\<bar>x\<bar> < 2 powr (of_int (binaryExponent x) + 1)" using both by simp
qed

lemma exponent_bounds:
  assumes "x \<noteq> 0"
  shows "2 powr of_int \<lfloor>log 2 \<bar>x\<bar>\<rfloor> \<le> \<bar>x\<bar>" "\<bar>x\<bar> < 2 powr (of_int \<lfloor>log 2 \<bar>x\<bar>\<rfloor> + 1)"
proof -
  have p: "0 < \<bar>x\<bar>" using assms by simp
  show "2 powr of_int \<lfloor>log 2 \<bar>x\<bar>\<rfloor> \<le> \<bar>x\<bar>"
    using le_log_iff[of 2 "\<bar>x\<bar>" "of_int \<lfloor>log 2 \<bar>x\<bar>\<rfloor>"] p by simp
  have "log 2 \<bar>x\<bar> < of_int \<lfloor>log 2 \<bar>x\<bar>\<rfloor> + 1" by linarith
  then show "\<bar>x\<bar> < 2 powr (of_int \<lfloor>log 2 \<bar>x\<bar>\<rfloor> + 1)"
    using log_less_iff[of 2 "\<bar>x\<bar>" "of_int \<lfloor>log 2 \<bar>x\<bar>\<rfloor> + 1"] p by simp
qed

lemma exponent_unique:
  assumes "2 powr of_int e \<le> \<bar>x\<bar>" "\<bar>x\<bar> < 2 powr (of_int e + 1)"
  shows "\<lfloor>log 2 \<bar>x\<bar>\<rfloor> = e"
proof -
  have p: "0 < \<bar>x\<bar>" using assms(1) by (smt (verit) powr_gt_zero)
  have "of_int e \<le> log 2 \<bar>x\<bar>"
    using assms(1) p le_log_iff[of 2 "\<bar>x\<bar>" "of_int e"] by simp
  moreover have "log 2 \<bar>x\<bar> < of_int e + 1"
    using assms(2) p log_less_iff[of 2 "\<bar>x\<bar>" "of_int e + 1"] by simp
  ultimately show ?thesis by linarith
qed

lemma float32_zero: "float32 0 = 0"
  by (simp add: float32_def)

lemma binaryExponent_log: "x \<noteq> 0 \<Longrightarrow> binaryExponent x = \<lfloor>log 2 \<bar>x\<bar>\<rfloor>"
  using exponent_unique[OF binaryExponent_bounds] by simp

lemma float32_unfold:
  assumes "x \<noteq> 0"
  shows "float32 x = 2 powr (of_int \<lfloor>log 2 \<bar>x\<bar>\<rfloor> - 23)
                       * of_int (roundTiesToEven (x / 2 powr (of_int \<lfloor>log 2 \<bar>x\<bar>\<rfloor> - 23)))"
proof -
  have "pow2 (binaryExponent x - 23) = 2 powr (of_int \<lfloor>log 2 \<bar>x\<bar>\<rfloor> - 23)"
    unfolding pow2_powr binaryExponent_log[OF assms] by simp
  then show ?thesis using assms by (simp add: float32_def Let_def)
qed

lemma scaled_bounds:
  assumes "x \<noteq> 0"
  shows "2 ^ 23 \<le> \<bar>x\<bar> / 2 powr (of_int \<lfloor>log 2 \<bar>x\<bar>\<rfloor> - 23)"
        "\<bar>x\<bar> / 2 powr (of_int \<lfloor>log 2 \<bar>x\<bar>\<rfloor> - 23) < 2 ^ 24"
proof -
  define e where "e = \<lfloor>log 2 \<bar>x\<bar>\<rfloor>"
  have u: "2 powr (of_int e - 23) * 2 ^ 23 = (2 powr of_int e :: real)"
    by (simp add: powr_diff)
  have u2: "2 powr (of_int e - 23) * 2 ^ 24 = (2 powr (of_int e + 1) :: real)"
    by (simp add: powr_diff powr_add)
  have pos: "0 < 2 powr (of_int e - 23 :: real)" by simp
  have "2 powr (of_int e - 23) * 2 ^ 23 \<le> \<bar>x\<bar>"
    using exponent_bounds(1)[OF assms] u unfolding e_def[symmetric] by linarith
  then show "2 ^ 23 \<le> \<bar>x\<bar> / 2 powr (of_int \<lfloor>log 2 \<bar>x\<bar>\<rfloor> - 23)"
    using pos unfolding e_def[symmetric] by (simp add: pos_le_divide_eq mult.commute)
  have "\<bar>x\<bar> < 2 powr (of_int e - 23) * 2 ^ 24"
    using exponent_bounds(2)[OF assms] u2 unfolding e_def[symmetric] by linarith
  then show "\<bar>x\<bar> / 2 powr (of_int \<lfloor>log 2 \<bar>x\<bar>\<rfloor> - 23) < 2 ^ 24"
    using pos unfolding e_def[symmetric] by (simp add: pos_divide_less_eq mult.commute)
qed

lemma float32_nonneg: "0 \<le> x \<Longrightarrow> 0 \<le> float32 x"
proof (cases "x = 0")
  case True
  then show ?thesis by (simp add: float32_zero)
next
  case False
  assume "0 \<le> x"
  then have "0 \<le> x / 2 powr (of_int \<lfloor>log 2 \<bar>x\<bar>\<rfloor> - 23)" by simp
  then have "0 \<le> roundTiesToEven (x / 2 powr (of_int \<lfloor>log 2 \<bar>x\<bar>\<rfloor> - 23))"
    using roundTiesToEven_ge[of 0] by simp
  then show ?thesis unfolding float32_unfold[OF False] by simp
qed

lemma float32_exact:
  assumes "x = of_int m * 2 powr of_int j" "\<bar>m\<bar> < 2 ^ 24"
  shows "float32 x = x"
proof (cases "x = 0")
  case True
  then show ?thesis by (simp add: float32_zero)
next
  case False
  define e where "e = \<lfloor>log 2 \<bar>x\<bar>\<rfloor>"
  have ax: "\<bar>x\<bar> = of_int \<bar>m\<bar> * 2 powr of_int j" by (simp add: assms(1) abs_mult)
  have "of_int \<bar>m\<bar> < (2 ^ 24 :: real)" using assms(2) by simp
  then have "\<bar>x\<bar> < 2 ^ 24 * 2 powr of_int j" unfolding ax by simp
  also have "\<dots> = 2 powr (24 + of_int j)" by (simp add: powr_add)
  finally have "2 powr of_int e < (2 powr (24 + of_int j) :: real)"
    using exponent_bounds(1)[OF False] unfolding e_def by linarith
  then have "of_int e < (24 + of_int j :: real)" by simp
  then have ej: "e - 23 \<le> j" by linarith
  define k where "k = nat (j - (e - 23))"
  have k: "of_int j - (of_int e - 23) = (real k)" using ej by (simp add: k_def)
  have "x / 2 powr (of_int e - 23) = of_int m * 2 powr (of_int j - (of_int e - 23))"
    by (simp add: assms(1) powr_diff)
  also have "\<dots> = of_int m * 2 ^ k" unfolding k by (simp add: powr_realpow)
  also have "\<dots> = of_int (m * 2 ^ k)" by simp
  finally have sc: "x / 2 powr (of_int e - 23) = of_int (m * 2 ^ k)" .
  have "float32 x = 2 powr (of_int e - 23) * (x / 2 powr (of_int e - 23))"
    unfolding float32_unfold[OF False] e_def[symmetric] 
    by (simp only: sc roundTiesToEven_of_int)
  then show ?thesis by simp
qed

lemma float32_of_small_int: "\<bar>n\<bar> < 2 ^ 24 \<Longrightarrow> float32 (of_int n) = of_int n"
  using float32_exact[of "of_int n" n 0] by simp

lemma float32_lower:
  assumes "0 < x"
  shows "2 powr of_int \<lfloor>log 2 \<bar>x\<bar>\<rfloor> \<le> float32 x"
proof -
  have nz: "x \<noteq> 0" using assms by simp
  define e where "e = \<lfloor>log 2 \<bar>x\<bar>\<rfloor>"
  have "(of_int (2 ^ 23) :: real) \<le> x / 2 powr (of_int e - 23)"
    using scaled_bounds(1)[OF nz] assms unfolding e_def by simp
  then have "2 ^ 23 \<le> roundTiesToEven (x / 2 powr (of_int e - 23))" by (rule roundTiesToEven_ge)
  then have "(2 ^ 23 :: real) \<le> of_int (roundTiesToEven (x / 2 powr (of_int e - 23)))"
    by simp
  then have "2 powr (of_int e - 23) * 2 ^ 23
      \<le> 2 powr (of_int e - 23) * (of_int (roundTiesToEven (x / 2 powr (of_int e - 23))) :: real)"
    by (intro mult_left_mono) simp_all
  moreover have "2 powr (of_int e - 23) * 2 ^ 23 = (2 powr of_int e :: real)" by (simp add: powr_diff)
  moreover have "float32 x = 2 powr (of_int e - 23) * of_int (roundTiesToEven (x / 2 powr (of_int e - 23)))"
    using float32_unfold[OF nz] unfolding e_def .
  ultimately show ?thesis unfolding e_def[symmetric] by linarith
qed

lemma float32_upper:
  assumes "0 < x"
  shows "float32 x \<le> 2 powr (of_int \<lfloor>log 2 \<bar>x\<bar>\<rfloor> + 1)"
proof -
  have nz: "x \<noteq> 0" using assms by simp
  define e where "e = \<lfloor>log 2 \<bar>x\<bar>\<rfloor>"
  have "x / 2 powr (of_int e - 23) \<le> (of_int (2 ^ 24) :: real)"
    using scaled_bounds(2)[OF nz] assms unfolding e_def by simp
  then have "roundTiesToEven (x / 2 powr (of_int e - 23)) \<le> 2 ^ 24" by (rule roundTiesToEven_le)
  then have "of_int (roundTiesToEven (x / 2 powr (of_int e - 23))) \<le> (2 ^ 24 :: real)"
    by simp
  then have "2 powr (of_int e - 23) * (of_int (roundTiesToEven (x / 2 powr (of_int e - 23))) :: real)
      \<le> 2 powr (of_int e - 23) * 2 ^ 24"
    by (intro mult_left_mono) simp_all
  moreover have "2 powr (of_int e - 23) * 2 ^ 24 = (2 powr (of_int e + 1) :: real)"
    by (simp add: powr_diff powr_add)
  moreover have "float32 x = 2 powr (of_int e - 23) * of_int (roundTiesToEven (x / 2 powr (of_int e - 23)))"
    using float32_unfold[OF nz] unfolding e_def .
  ultimately show ?thesis unfolding e_def[symmetric] by linarith
qed

lemma float32_mono_nonneg:
  assumes "0 \<le> x" "x \<le> y"
  shows "float32 x \<le> float32 y"
proof (cases "x = 0")
  case True
  then show ?thesis using float32_nonneg[of y] assms by (simp add: float32_zero)
next
  case False
  then have px: "0 < x" and py: "0 < y" using assms by auto
  have nzx: "x \<noteq> 0" and nzy: "y \<noteq> 0" using px py by auto
  define ex where "ex = \<lfloor>log 2 \<bar>x\<bar>\<rfloor>"
  define ey where "ey = \<lfloor>log 2 \<bar>y\<bar>\<rfloor>"
  have "log 2 \<bar>x\<bar> \<le> log 2 \<bar>y\<bar>" using px py assms(2) by simp
  then have le: "ex \<le> ey" unfolding ex_def ey_def by (rule floor_mono)
  show ?thesis
  proof (cases "ex = ey")
    case True
    have "x / 2 powr (of_int ex - 23) \<le> y / 2 powr (of_int ex - 23)"
      using assms(2) by (simp add: divide_right_mono)
    then have "roundTiesToEven (x / 2 powr (of_int ex - 23)) \<le> roundTiesToEven (y / 2 powr (of_int ex - 23))"
      by (rule roundTiesToEven_mono)
    then have "2 powr (of_int ex - 23) * (of_int (roundTiesToEven (x / 2 powr (of_int ex - 23))) :: real)
        \<le> 2 powr (of_int ex - 23) * of_int (roundTiesToEven (y / 2 powr (of_int ex - 23)))"
      by (intro mult_left_mono) simp_all
    then show ?thesis
      unfolding float32_unfold[OF nzx] float32_unfold[OF nzy] ex_def[symmetric] ey_def[symmetric]
        True[symmetric] .
  next
    case False
    then have "ex + 1 \<le> ey" using le by simp
    then have "(of_int ex + 1 :: real) \<le> of_int ey" by linarith
    then have "2 powr (of_int ex + 1) \<le> (2 powr of_int ey :: real)" by simp
    moreover have "float32 x \<le> 2 powr (of_int ex + 1)"
      using float32_upper[OF px] unfolding ex_def .
    moreover have "2 powr of_int ey \<le> float32 y"
      using float32_lower[OF py] unfolding ey_def .
    ultimately show ?thesis by linarith
  qed
qed

lemma float32_le: "0 \<le> x \<Longrightarrow> x \<le> of_int n \<Longrightarrow> \<bar>n\<bar> < 2 ^ 24 \<Longrightarrow> float32 x \<le> of_int n"
  using float32_mono_nonneg[of x "of_int n"] float32_of_small_int[of n] by simp

lemma float32_eval:
  assumes "2 powr of_int e \<le> \<bar>x\<bar>" "\<bar>x\<bar> < 2 powr (of_int e + 1)"
  shows "float32 x = 2 powr (of_int e - 23) * of_int (roundTiesToEven (x / 2 powr (of_int e - 23)))"
proof -
  have "x \<noteq> 0" using assms(1) by (smt (verit) powr_gt_zero)
  then show ?thesis
    unfolding float32_unfold[OF \<open>x \<noteq> 0\<close>] exponent_unique[OF assms] by simp
qed

lemma float32_representable: "\<exists>m j. float32 x = of_int m * 2 powr of_int j \<and> \<bar>m\<bar> < 2 ^ 24"
proof (cases "x = 0")
  case True
  then show ?thesis by (intro exI[of _ 0]) (simp add: float32_zero)
next
  case False
  define e where "e = \<lfloor>log 2 \<bar>x\<bar>\<rfloor>"
  define r where "r = roundTiesToEven (x / 2 powr (of_int e - 23))"
  have fx: "float32 x = 2 powr (of_int e - 23) * of_int r"
    using float32_unfold[OF False] unfolding e_def r_def .
  have sb: "\<bar>x / 2 powr (of_int e - 23)\<bar> < 2 ^ 24"
    using scaled_bounds(2)[OF False] unfolding e_def by (simp add: abs_divide)
  have sb1: "x / 2 powr (of_int e - 23) < 2 ^ 24" and sb2: "- (2 ^ 24) < x / 2 powr (of_int e - 23)"
    using sb by linarith+
  have "x / 2 powr (of_int e - 23) \<le> of_int (2 ^ 24)" using sb1 by simp
  then have r1: "r \<le> 2 ^ 24" unfolding r_def by (rule roundTiesToEven_le)
  have "of_int (- (2 ^ 24)) \<le> x / 2 powr (of_int e - 23)" using sb2 by simp
  then have r2: "- (2 ^ 24) \<le> r" unfolding r_def by (rule roundTiesToEven_ge)
  consider "\<bar>r\<bar> < 2 ^ 24" | "r = 2 ^ 24" | "r = - (2 ^ 24)" using r1 r2 by linarith
  then show ?thesis
  proof cases
    case 1
    have "float32 x = of_int r * 2 powr of_int (e - 23)" unfolding fx by simp
    then show ?thesis using 1 by blast
  next
    case 2
    have "float32 x = of_int (2 ^ 23) * 2 powr of_int (e - 22)"
      unfolding fx 2 by (simp add: powr_diff)
    moreover have "\<bar>2 ^ 23 :: int\<bar> < 2 ^ 24" by simp
    ultimately show ?thesis by blast
  next
    case 3
    have "float32 x = of_int (- (2 ^ 23)) * 2 powr of_int (e - 22)"
      unfolding fx 3 by (simp add: powr_diff)
    moreover have "\<bar>- (2 ^ 23) :: int\<bar> < 2 ^ 24" by simp
    ultimately show ?thesis by blast
  qed
qed

lemma float32_idem: "float32 (float32 x) = float32 x"
  using float32_representable[of x] float32_exact by blast

lemma float32_of_nat_integer: "\<exists>k::int. float32 (real n) = of_int k"
proof (cases "n < 2 ^ 24")
  case True
  then have "\<bar>int n\<bar> < 2 ^ 24" by simp
  then have "float32 (of_int (int n)) = of_int (int n)" by (rule float32_of_small_int)
  then show ?thesis by (intro exI[of _ "int n"]) simp
next
  case False
  then have big: "(2 ^ 24 :: real) \<le> real n" by (simp add: not_less flip: of_nat_le_iff del: of_nat_le_iff)
  then have nz: "real n \<noteq> 0" by auto
  define e where "e = \<lfloor>log 2 \<bar>real n\<bar>\<rfloor>"
  have "2 powr 24 \<le> \<bar>real n\<bar>" using big by simp
  then have "24 \<le> log 2 \<bar>real n\<bar>" using le_log_iff[of 2 "\<bar>real n\<bar>" 24] by simp
  then have e24: "24 \<le> e" unfolding e_def by (simp add: le_floor_iff)
  define k where "k = nat (e - 23)"
  have "(of_int e - 23 :: real) = real k" using e24 by (simp add: k_def)
  then have u: "2 powr (of_int e - 23) = (2 ^ k :: real)" by (simp add: powr_realpow)
  have "float32 (real n) = of_int (2 ^ k * roundTiesToEven (real n / 2 powr (of_int e - 23)))"
    using float32_unfold[OF nz] unfolding e_def[symmetric] u by simp
  then show ?thesis by blast
qed

lemma frac_of_integer: "x = of_int k \<Longrightarrow> x - of_int \<lfloor>x\<rfloor> = (0 :: real)"
  by simp

lemma roundTiesToEven_near: "\<bar>x - of_int n\<bar> < 1 / 2 \<Longrightarrow> roundTiesToEven x = n"
proof -
  assume a: "\<bar>x - of_int n\<bar> < 1 / 2"
  consider "of_int n \<le> x" | "x < of_int n" by linarith
  then show ?thesis
  proof cases
    case 1
    then have "\<lfloor>x\<rfloor> = n" using a by linarith
    then show ?thesis using a 1 by (simp add: roundTiesToEven_def Let_def)
  next
    case 2
    then have f: "\<lfloor>x\<rfloor> = n - 1" using a by linarith
    have "1 / 2 < x - of_int (n - 1)" using a 2 by simp
    then show ?thesis unfolding roundTiesToEven_def Let_def f by simp
  qed
qed

lemma roundTiesToEven_tie:
  "x = of_int n + 1 / 2 \<Longrightarrow> roundTiesToEven x = (if even n then n else n + 1)"
proof -
  assume x: "x = of_int n + 1 / 2"
  have f: "\<lfloor>x\<rfloor> = n" unfolding x by linarith
  have d: "x - of_int n = 1 / 2" unfolding x by simp
  show ?thesis unfolding roundTiesToEven_def Let_def f d by simp
qed

lemma float32_scaled_div:
  assumes "2 ^ 23 \<le> \<bar>x\<bar> * 2 ^ k" "\<bar>x\<bar> * 2 ^ k < 2 ^ 24"
  shows "float32 x = of_int (roundTiesToEven (x * 2 ^ k)) / 2 ^ k"
proof -
  define e :: int where "e = 23 - int k"
  have u: "2 powr (of_int e - 23) = (1 / 2 ^ k :: real)"
    by (simp add: e_def powr_minus powr_realpow inverse_eq_divide)
  have pe: "2 powr of_int e = (2 ^ 23 / 2 ^ k :: real)"
    using u by (simp add: powr_diff)
  have pe1: "2 powr (of_int e + 1) = (2 ^ 24 / 2 ^ k :: real)"
    using pe by (simp add: powr_add)
  have 1: "2 powr of_int e \<le> \<bar>x\<bar>" unfolding pe using assms(1) by (simp add: pos_divide_le_eq)
  have 2: "\<bar>x\<bar> < 2 powr (of_int e + 1)" unfolding pe1 using assms(2) by (simp add: pos_less_divide_eq)
  have 3: "x / 2 powr (of_int e - 23) = x * 2 ^ k" unfolding u by simp
  have "float32 x = 2 powr (of_int e - 23) * of_int (roundTiesToEven (x * 2 ^ k))"
    using float32_eval[OF 1 2] by (simp only: 3)
  then show ?thesis by (simp add: u)
qed

lemma float32_scaled_mult:
  assumes "2 ^ 23 \<le> \<bar>x\<bar> / 2 ^ k" "\<bar>x\<bar> / 2 ^ k < 2 ^ 24"
  shows "float32 x = of_int (roundTiesToEven (x / 2 ^ k)) * 2 ^ k"
proof -
  define e :: int where "e = 23 + int k"
  have u: "2 powr (of_int e - 23) = (2 ^ k :: real)"
    by (simp add: e_def powr_realpow)
  have pe: "2 powr of_int e = (2 ^ 23 * 2 ^ k :: real)"
    by (simp add: e_def powr_add powr_realpow)
  have pe1: "2 powr (of_int e + 1) = (2 ^ 24 * 2 ^ k :: real)"
    using pe by (simp add: powr_add)
  have 1: "2 powr of_int e \<le> \<bar>x\<bar>" unfolding pe using assms(1) by (simp add: pos_le_divide_eq)
  have 2: "\<bar>x\<bar> < 2 powr (of_int e + 1)" unfolding pe1 using assms(2) by (simp add: pos_divide_less_eq)
  have "float32 x = 2 powr (of_int e - 23) * of_int (roundTiesToEven (x / 2 ^ k))"
    using float32_eval[OF 1 2] by (simp only: u)
  then show ?thesis by (simp add: u)
qed

lemma float32_value_div:
  assumes "2 ^ 23 \<le> \<bar>x\<bar> * 2 ^ k" "\<bar>x\<bar> * 2 ^ k < 2 ^ 24" "\<bar>x * 2 ^ k - of_int n\<bar> < 1 / 2"
  shows "float32 x = of_int n / 2 ^ k"
  unfolding float32_scaled_div[OF assms(1,2)] roundTiesToEven_near[OF assms(3)] ..

lemma float32_value_mult:
  assumes "2 ^ 23 \<le> \<bar>x\<bar> / 2 ^ k" "\<bar>x\<bar> / 2 ^ k < 2 ^ 24" "\<bar>x / 2 ^ k - of_int n\<bar> < 1 / 2"
  shows "float32 x = of_int n * 2 ^ k"
  unfolding float32_scaled_mult[OF assms(1,2)] roundTiesToEven_near[OF assms(3)] ..

lemma float32_exact_div: "\<bar>m\<bar> < 2 ^ 24 \<Longrightarrow> float32 (of_int m / 2 ^ k) = of_int m / 2 ^ k"
  using float32_exact[of "of_int m / 2 ^ k" m "- int k"]
  by (simp add: powr_minus powr_realpow inverse_eq_divide)

lemma float32_exact_mult: "\<bar>m\<bar> < 2 ^ 24 \<Longrightarrow> float32 (of_int m * 2 ^ k) = of_int m * 2 ^ k"
  using float32_exact[of "of_int m * 2 ^ k" m "int k"]
  by (simp add: powr_realpow)

subsection \<open>Faults and returned values\<close>

lemma std_round_nonneg: "0 \<le> x \<Longrightarrow> std_round x = of_int (round x)"
  by (simp add: std_round_def round_def)











subsection \<open>The phase at sample parameters\<close>

lemma ComputePhase_sample_64: "ComputePhase (Some periodic64) 1 = Inr 563"
proof -
  have a: "float32 1 = 1" using float32_of_small_int[of 1] by simp
  have b: "float32 64 = 64" using float32_of_small_int[of 64] by simp
  have k: "float32 (1 / 64) = 1 / 64"
    using float32_exact_div[where m = 1 and k = 6] by simp
  have f: "\<lfloor>1 / 64 :: real\<rfloor> = 0" by simp
  have p: "float32 (1125 / 2) = 1125 / 2"
    using float32_exact_div[where m = 1125 and k = 1] by simp
  show ?thesis
    by (simp add: ComputePhase_def periodic64_def Let_def a b k f p std_round_def)
qed

lemma ComputePhase_sample_1600: "ComputePhase (Some periodic1600) 39 = Inr 877"
proof -
  have a: "float32 39 = 39" using float32_of_small_int[of 39] by simp
  have b: "float32 1600 = 1600" using float32_of_small_int[of 1600] by simp
  have k: "float32 (39 / 1600) = 3271557 / 134217728"
    using float32_value_div[where k = 29 and x = "39 / 1600" and n = 13086228] by simp
  have f: "\<lfloor>3271557 / 134217728 :: real\<rfloor> = 0" by simp
  have e: "float32 (3271557 / 134217728) = 3271557 / 134217728"
    using float32_exact_div[where m = 3271557 and k = 27] by simp
  have p: "float32 (3680501625 / 4194304) = 14376959 / 16384"
    using float32_value_div[where k = 14 and x = "3680501625 / 4194304" and n = 14376959]
    by simp
  have s: "float32 (14376959 / 16384) = 14376959 / 16384"
    using float32_exact_div[where m = 14376959 and k = 14] by simp
  show ?thesis
    by (simp add: ComputePhase_def periodic1600_def Let_def a b k f e p s std_round_def)
qed

lemma ComputePhase_sample_3: "ComputePhase (Some periodic3) 1537 = Inr 11999"
proof -
  have a: "float32 1537 = 1537" using float32_of_small_int[of 1537] by simp
  have b: "float32 3 = 3" using float32_of_small_int[of 3] by simp
  have k: "float32 (1537 / 3) = 8394069 / 16384"
    using float32_value_div[where k = 14 and x = "1537 / 3" and n = 8394069] by simp
  have f: "\<lfloor>8394069 / 16384 :: real\<rfloor> = 512" by simp
  have e: "float32 (5461 / 16384) = 5461 / 16384"
    using float32_exact_div[where m = 5461 and k = 14] by simp
  have p: "float32 (6143625 / 512) = 6143625 / 512"
    using float32_exact_div[where m = 6143625 and k = 9] by simp
  show ?thesis
    by (simp add: ComputePhase_def periodic3_def Let_def a b k f e p std_round_def)
qed

lemma ComputePhase_sample_2: "ComputePhase (Some periodic2) 4294967295 = Inr 0"
proof -
  have a: "float32 4294967295 = 4294967296"
    using float32_value_mult[where k = 8 and x = 4294967295 and n = 16777216] by simp
  have b: "float32 2 = 2" using float32_of_small_int[of 2] by simp
  have k: "float32 2147483648 = 2147483648"
    using float32_exact_mult[where m = 1 and k = 31] by simp
  show ?thesis
    by (simp add: ComputePhase_def periodic2_def Let_def a b k float32_zero std_round_def)
qed

lemma ComputePhase_sample_3_769: "ComputePhase (Some periodic3) 769 = Inr 12000"
proof -
  have a: "float32 769 = 769" using float32_of_small_int[of 769] by simp
  have b: "float32 3 = 3" using float32_of_small_int[of 3] by simp
  have k: "float32 (769 / 3) = 8399531 / 32768"
    using float32_value_div[where k = 15 and x = "769 / 3" and n = 8399531] by simp
  have f: "\<lfloor>8399531 / 32768 :: real\<rfloor> = 256" by simp
  have e: "float32 (10923 / 32768) = 10923 / 32768"
    using float32_exact_div[where m = 10923 and k = 15] by simp
  have p: "float32 (12288375 / 1024) = 12288375 / 1024"
    using float32_exact_div[where m = 12288375 and k = 10] by simp
  show ?thesis
    by (simp add: ComputePhase_def periodic3_def Let_def a b k f e p std_round_def)
qed

lemma ComputePhase_sample_3_770: "ComputePhase (Some periodic3) 770 = Inr 24000"
proof -
  have a: "float32 770 = 770" using float32_of_small_int[of 770] by simp
  have b: "float32 3 = 3" using float32_of_small_int[of 3] by simp
  have k: "float32 (770 / 3) = 8410453 / 32768"
    using float32_value_div[where k = 15 and x = "770 / 3" and n = 8410453] by simp
  have f: "\<lfloor>8410453 / 32768 :: real\<rfloor> = 256" by simp
  have e: "float32 (21845 / 32768) = 21845 / 32768"
    using float32_exact_div[where m = 21845 and k = 15] by simp
  have "roundTiesToEven (24575625 / 2) = 12287812"
    using roundTiesToEven_tie[of "24575625 / 2" 12287812] by simp
  then have p: "float32 (24575625 / 1024) = 3071953 / 128"
    using float32_scaled_div[where k = 9 and x = "24575625 / 1024"] by simp
  have s: "float32 (3071953 / 128) = 3071953 / 128"
    using float32_exact_div[where m = 3071953 and k = 7] by simp
  show ?thesis
    by (simp add: ComputePhase_def periodic3_def Let_def a b k f e p s std_round_def)
qed

lemma ComputePhase_sample_4: "ComputePhase (Some periodic4) 16777217 = Inr 0"
proof -
  have "roundTiesToEven (16777217 / 2) = 8388608"
    using roundTiesToEven_tie[of "16777217 / 2" 8388608] by simp
  then have a: "float32 16777217 = 16777216"
    using float32_scaled_mult[where k = 1 and x = 16777217] by simp
  have b: "float32 4 = 4" using float32_of_small_int[of 4] by simp
  have k: "float32 4194304 = 4194304" using float32_of_small_int[of 4194304] by simp
  show ?thesis
    by (simp add: ComputePhase_def periodic4_def Let_def a b k float32_zero std_round_def)
qed

text \<open>
  Claim C1, as the code has it. An absent duration is read as 0, not as infinite:
  \<open>ComputeMagnitude\<close> of an effect without a duration is zero at every time. With a
  duration \<open>d\<close> the magnitude is zero from \<open>d\<close> on, and before \<open>d\<close> (the sample period
  for computations being non-zero) it is the raw, enveloped magnitude at the
  quantised time, scaled by the gain fraction.
\<close>

theorem ComputeMagnitude_duration:
  "(duration (commonParameters e) = None \<longrightarrow> ComputeMagnitude e t = Inr 0) \<and>
   (\<forall>d. duration (commonParameters e) = Some d \<longrightarrow>
      (d \<le> t \<longrightarrow> ComputeMagnitude e t = Inr 0) \<and>
      (t < d \<and> samplePeriodForComputations (commonParameters e) \<noteq> 0 \<longrightarrow>
         ComputeMagnitude e t =
           map_sum id (\<lambda>m. m * gainFraction (commonParameters e))
             (ComputeRawMagnitude e
                (t - t mod samplePeriodForComputations (commonParameters e)))))"
  by (auto simp add: ComputeMagnitude_def kEffectForceMagnitudeZero_def Let_def
      split: sum.splits)

text \<open>The theorem at two sample effects, one with a duration of 1000 ms and one without.\<close>

theorem ComputeMagnitude_duration_witness:
  "duration (commonParameters effectWithDuration) = Some 1000 \<and>
   ComputeMagnitude effectWithDuration 100 = Inr 2500 \<and>
   ComputeMagnitude effectWithDuration 1000 = Inr 0 \<and>
   duration (commonParameters effectNoDuration) = None \<and>
   ComputeMagnitude effectNoDuration 100 = Inr 0"
  using ComputeMagnitude_duration[of effectWithDuration 100]
    ComputeMagnitude_duration[of effectWithDuration 1000]
    ComputeMagnitude_duration[of effectNoDuration 100]
  by (simp add: effectWithDuration_def effectNoDuration_def ComputeRawMagnitude_def
      ApplyEnvelope_def)

text \<open>
  Claim C1 as stated fails: the sample effect has no duration, its raw magnitude at time
  100 is 5000 and its gain fraction is 1, yet \<open>ComputeMagnitude\<close> returns zero there.
\<close>

theorem ComputeMagnitude_absent_duration_counterexample:
  "duration (commonParameters effectNoDuration) = None \<and>
   ComputeRawMagnitude effectNoDuration 100 = Inr 5000 \<and>
   gainFraction (commonParameters effectNoDuration) = 1 \<and>
   ComputeMagnitude effectNoDuration 100 = Inr 0"
  by (simp add: ComputeMagnitude_def ComputeRawMagnitude_def effectNoDuration_def
      ApplyEnvelope_def kEffectForceMagnitudeZero_def)

text \<open>
  Claim C8, as the code has it. For a periodic effect with period at least 1 ms and
  initial phase in \<open>[0, 35999]\<close>, \<open>ComputePhase\<close> returns at every raw time; the value is
  the formula \<open>((t / period) - \<lfloor>t / period\<rfloor>) \<times> 36000 + phase\<^sub>0\<close> evaluated in single
  precision, each operation rounded, then rounded to the nearest integer by
  \<^verbatim>\<open>std::round\<close> and lowered by 36000 when it is 36000 or more; that last subtraction is
  exact. The result is an integer in \<open>[0, 36000)\<close>. The function has no loop; with period
  1 ms the result is the rounded initial phase at every time.
\<close>

theorem ComputePhase_single_precision:
  assumes "1 \<le> period p" "0 \<le> phase p" "phase p \<le> 35999"
  shows "\<exists>ph. ComputePhase (Some p) t = Inr ph \<and> 0 \<le> ph \<and> ph < 36000 \<and>
     (\<exists>n :: int. ph = of_int n) \<and>
     (let k = float32 (float32 (real (unat t)) / float32 (real (unat (period p))));
          r = std_round (float32 (float32 (float32 (k - of_int \<lfloor>k\<rfloor>) * 36000) + phase p))
      in ph = (if r \<ge> 36000 then r - 36000 else r)) \<and>
     (period p = 1 \<longrightarrow> ph = std_round (float32 (phase p)))"
proof -
  define k where "k = float32 (float32 (real (unat t)) / float32 (real (unat (period p))))"
  define fr where "fr = float32 (k - of_int \<lfloor>k\<rfloor>)"
  define pr where "pr = float32 (fr * 36000)"
  define s where "s = float32 (pr + phase p)"
  define r where "r = std_round s"
  have f0: "0 \<le> k - of_int \<lfloor>k\<rfloor>" and f1: "k - of_int \<lfloor>k\<rfloor> \<le> of_int 1" by simp_all linarith
  have fr0: "0 \<le> fr" unfolding fr_def using f0 by (rule float32_nonneg)
  have fr1: "fr \<le> 1" unfolding fr_def using float32_le[OF f0 f1] by simp
  have pr0: "0 \<le> pr" unfolding pr_def using fr0 by (intro float32_nonneg) simp
  have "fr * 36000 \<le> of_int 36000" using fr1 by simp
  then have pr1: "pr \<le> 36000" unfolding pr_def
    using float32_le[of "fr * 36000" 36000] fr0 by simp
  have "pr + phase p \<le> of_int 71999" using pr1 assms(3) by simp
  then have s1: "s \<le> 71999" unfolding s_def
    using float32_le[of "pr + phase p" 71999] pr0 assms(2) by simp
  have s0: "0 \<le> s" unfolding s_def using pr0 assms(2) by (intro float32_nonneg) simp
  have rr: "r = of_int (round s)" unfolding r_def using s0 by (rule std_round_nonneg)
  have r0: "0 \<le> round s" using s0 by (simp add: round_def)
  have r1: "round s \<le> 71999" using s1 unfolding round_def by linarith
  define ph where "ph = (if r \<ge> 36000 then r - 36000 else r)"
  have phi: "ph = of_int (if round s \<ge> 36000 then round s - 36000 else round s)"
    unfolding ph_def rr by simp
  have sub: "float32 (r - 36000) = r - 36000" if "r \<ge> 36000"
  proof -
    have "\<bar>round s - 36000\<bar> < 2 ^ 24" using r0 r1 by simp
    then have "float32 (of_int (round s - 36000)) = of_int (round s - 36000)"
      by (rule float32_of_small_int)
    then show ?thesis unfolding rr by simp
  qed
  have cp: "ComputePhase (Some p) t = Inr ph"
    using sub by (simp add: ComputePhase_def Let_def ph_def r_def s_def pr_def fr_def k_def)
  have b0: "0 \<le> ph" and b1: "ph < 36000" using r0 r1 unfolding phi by auto
  have int: "\<exists>n :: int. ph = of_int n" using phi by blast
  have form: "let k = float32 (float32 (real (unat t)) / float32 (real (unat (period p))));
          r = std_round (float32 (float32 (float32 (k - of_int \<lfloor>k\<rfloor>) * 36000) + phase p))
      in ph = (if r \<ge> 36000 then r - 36000 else r)"
    by (simp add: Let_def ph_def r_def s_def pr_def fr_def k_def)
  have one: "ph = std_round (float32 (phase p))" if "period p = 1"
  proof -
    obtain n :: int where n: "float32 (real (unat t)) = of_int n"
      using float32_of_nat_integer by blast
    have "float32 (real (unat (period p))) = 1"
      using that float32_of_small_int[of 1] by simp
    then have "k = float32 (float32 (real (unat t)))" by (simp add: k_def)
    then have "k = of_int n" using n by (simp add: float32_idem)
    then have "k - of_int \<lfloor>k\<rfloor> = 0" by (rule frac_of_integer)
    then have "fr = 0" by (simp add: fr_def float32_zero)
    then have "pr = 0" by (simp add: pr_def float32_zero)
    then have sp: "s = float32 (phase p)" by (simp add: s_def)
    have "phase p \<le> of_int 35999" using assms(3) by simp
    then have "s \<le> 35999" unfolding sp using float32_le[of "phase p" 35999] assms(2) by simp
    then have "round s \<le> 35999" unfolding round_def by linarith
    then have "ph = r" unfolding phi rr by simp
    then show ?thesis by (simp add: r_def sp)
  qed
  show ?thesis using cp b0 b1 int form one by blast
qed

text \<open>
  The theorem at samples in which single precision decides the result. Period 1600 ms
  at 39 ms: the quotient is not a float and the product falls just below 877.5. Period
  3 ms at 1537 ms, 769 ms and 770 ms: the quotient is rounded down, up and down, and at
  770 ms the product lies halfway between two floats. Period 2 ms at the largest raw
  time, which is converted to \<open>2\<^sup>3\<^sup>2\<close>, and period 4 ms at \<open>2\<^sup>2\<^sup>4 + 1\<close>, which lies halfway
  between two floats and is converted to \<open>2\<^sup>2\<^sup>4\<close>.
\<close>

theorem ComputePhase_single_precision_witness:
  "1 \<le> period periodic1600 \<and> 0 \<le> phase periodic1600 \<and> phase periodic1600 \<le> 35999 \<and>
   ComputePhase (Some periodic1600) 39 = Inr 877 \<and>
   1 \<le> period periodic3 \<and> 0 \<le> phase periodic3 \<and> phase periodic3 \<le> 35999 \<and>
   ComputePhase (Some periodic3) 1537 = Inr 11999 \<and>
   ComputePhase (Some periodic3) 769 = Inr 12000 \<and>
   ComputePhase (Some periodic3) 770 = Inr 24000 \<and>
   1 \<le> period periodic2 \<and> 0 \<le> phase periodic2 \<and> phase periodic2 \<le> 35999 \<and>
   ComputePhase (Some periodic2) 4294967295 = Inr 0 \<and>
   1 \<le> period periodic4 \<and> 0 \<le> phase periodic4 \<and> phase periodic4 \<le> 35999 \<and>
   ComputePhase (Some periodic4) 16777217 = Inr 0"
proof -
  have h1: "1 \<le> period periodic1600" "0 \<le> phase periodic1600" "phase periodic1600 \<le> 35999"
    by (simp_all add: periodic1600_def)
  have h2: "1 \<le> period periodic3" "0 \<le> phase periodic3" "phase periodic3 \<le> 35999"
    by (simp_all add: periodic3_def)
  have h3: "1 \<le> period periodic2" "0 \<le> phase periodic2" "phase periodic2 \<le> 35999"
    by (simp_all add: periodic2_def)
  have h4: "1 \<le> period periodic4" "0 \<le> phase periodic4" "phase periodic4 \<le> 35999"
    by (simp_all add: periodic4_def)
  obtain ph1 where p1: "ComputePhase (Some periodic1600) 39 = Inr ph1" "0 \<le> ph1" "ph1 < 36000"
    using ComputePhase_single_precision[OF h1, of 39] by blast
  obtain ph2 where p2: "ComputePhase (Some periodic3) 1537 = Inr ph2" "0 \<le> ph2" "ph2 < 36000"
    using ComputePhase_single_precision[OF h2, of 1537] by blast
  obtain ph3 where p3: "ComputePhase (Some periodic2) 4294967295 = Inr ph3" "0 \<le> ph3"
      "ph3 < 36000"
    using ComputePhase_single_precision[OF h3, of 4294967295] by blast
  obtain ph4 where p4: "ComputePhase (Some periodic4) 16777217 = Inr ph4" "0 \<le> ph4"
      "ph4 < 36000"
    using ComputePhase_single_precision[OF h4, of 16777217] by blast
  have "ph1 = 877" using p1(1) ComputePhase_sample_1600 by simp
  moreover have "ph2 = 11999" using p2(1) ComputePhase_sample_3 by simp
  moreover have "ph3 = 0" using p3(1) ComputePhase_sample_2 by simp
  moreover have "ph4 = 0" using p4(1) ComputePhase_sample_4 by simp
  ultimately show ?thesis
    using h1 h2 h3 h4 p1(1) p2(1) p3(1) p4(1) ComputePhase_sample_3_769
      ComputePhase_sample_3_770
    by simp
qed

text \<open>
  Claim C8 as stated fails. With valid periodic parameters (period 64 ms, phase 0) and
  raw time 1 ms the formula gives 562.5 and the code returns 563, every value involved
  being a float. With period 1600 ms and raw time 39 ms the formula gives 877.5, which
  rounds to 878, and the code returns 877.
\<close>

theorem ComputePhase_unrounded_counterexample:
  "AreTypeSpecificParametersValid_Periodic periodic64 \<and>
   ComputePhase (Some periodic64) 1 = Inr 563 \<and>
   phase_now_spec 1 (period periodic64) (phase periodic64) = 1125 / 2 \<and>
   AreTypeSpecificParametersValid_Periodic periodic1600 \<and>
   ComputePhase (Some periodic1600) 39 = Inr 877 \<and>
   phase_now_spec 39 (period periodic1600) (phase periodic1600) = 1755 / 2 \<and>
   std_round (1755 / 2) = 878"
proof -
  have "AreTypeSpecificParametersValid_Periodic periodic64"
    "AreTypeSpecificParametersValid_Periodic periodic1600"
    by (simp_all add: AreTypeSpecificParametersValid_Periodic_def periodic64_def
        periodic1600_def kEffectForceMagnitudeMaximum_def kEffectForceMagnitudeMinimum_def
        kEffectAngleMinimum_def kEffectAngleMaximum_def)
  moreover have "phase_now_spec 1 (period periodic64) (phase periodic64) = 1125 / 2"
    "phase_now_spec 39 (period periodic1600) (phase periodic1600) = 1755 / 2"
    by (simp_all add: phase_now_spec_def wrap36000_def periodic64_def periodic1600_def)
  moreover have "std_round (1755 / 2) = 878" by (simp add: std_round_def)
  ultimately show ?thesis using ComputePhase_sample_64 ComputePhase_sample_1600 by simp
qed




text \<open>
  Claim C10. \<open>ApplyEnvelope\<close> faults exactly when an envelope is present, the raw time
  is not within the attack window and the duration is absent: the fault is the unchecked
  \<^verbatim>\<open>duration.value()\<close> of the fade branch. Hence \<open>ApplyEnvelope\<close> returns for all raw
  times and sustain levels if and only if an effect that carries an envelope also carries
  a duration.
\<close>

theorem ApplyEnvelope_total_iff:
  "(ApplyEnvelope cp t s = Inl f \<longleftrightarrow>
      f = BadOptionalAccess \<and> duration cp = None \<and>
      (\<exists>env. envelope cp = Some env \<and> \<not> t < attackTime env)) \<and>
   ((\<forall>t' s'. \<exists>v. ApplyEnvelope cp t' s' = Inr v) \<longleftrightarrow>
      (envelope cp \<noteq> None \<longrightarrow> duration cp \<noteq> None))"
proof (intro conjI)
  show "ApplyEnvelope cp t s = Inl f \<longleftrightarrow>
      f = BadOptionalAccess \<and> duration cp = None \<and>
      (\<exists>env. envelope cp = Some env \<and> \<not> t < attackTime env)"
    by (auto simp: ApplyEnvelope_def Let_def split: option.splits if_splits)
  show "(\<forall>t' s'. \<exists>v. ApplyEnvelope cp t' s' = Inr v) \<longleftrightarrow>
      (envelope cp \<noteq> None \<longrightarrow> duration cp \<noteq> None)"
  proof
    assume a: "\<forall>t' s'. \<exists>v. ApplyEnvelope cp t' s' = Inr v"
    show "envelope cp \<noteq> None \<longrightarrow> duration cp \<noteq> None"
    proof (intro impI notI)
      assume "envelope cp \<noteq> None" and nd: "duration cp = None"
      then obtain env where "envelope cp = Some env" by auto
      then have "ApplyEnvelope cp (attackTime env) 0 = Inl BadOptionalAccess"
        using nd by (simp add: ApplyEnvelope_def)
      with a show False by (metis Inl_Inr_False)
    qed
  next
    assume "envelope cp \<noteq> None \<longrightarrow> duration cp \<noteq> None"
    then show "\<forall>t' s'. \<exists>v. ApplyEnvelope cp t' s' = Inr v"
      by (auto simp: ApplyEnvelope_def Let_def split: option.splits)
  qed
qed

text \<open>The theorem at parameters with an envelope (attack time 10 ms) and no duration.\<close>

theorem ApplyEnvelope_total_iff_witness:
  "envelope envelopeNoDuration \<noteq> None \<and> duration envelopeNoDuration = None \<and>
   ApplyEnvelope envelopeNoDuration 10 5000 = Inl BadOptionalAccess \<and>
   \<not> (\<forall>t' s'. \<exists>v. ApplyEnvelope envelopeNoDuration t' s' = Inr v)"
  using ApplyEnvelope_total_iff[of envelopeNoDuration 10 5000 BadOptionalAccess]
  by (simp add: envelopeNoDuration_def)


section \<open>Properties of the direction vector conversions\<close>

lemma kSqrt3_float: "kSqrt3 = float32 (sqrt 3)"
proof -
  have "(29058989 / 16777216 :: real)\<^sup>2 < 3" by (simp add: power2_eq_square)
  then have lo: "29058989 / 16777216 < sqrt 3" by (rule real_less_rsqrt)
  have "3 < (29058991 / 16777216 :: real)\<^sup>2" by (simp add: power2_eq_square)
  then have hi: "sqrt 3 < 29058991 / 16777216" by (intro real_less_lsqrt) simp_all
  have a: "\<bar>sqrt 3\<bar> = sqrt 3" by simp
  have 1: "2 ^ 23 \<le> \<bar>sqrt 3\<bar> * 2 ^ 23" unfolding a using lo by simp
  have 2: "\<bar>sqrt 3\<bar> * 2 ^ 23 < 2 ^ 24" unfolding a using hi by simp
  have "sqrt 3 * 2 ^ 23 - 14529495 < 1 / 2" "- (1 / 2) < sqrt 3 * 2 ^ 23 - 14529495"
    using lo hi by simp_all
  then have 3: "\<bar>sqrt 3 * 2 ^ 23 - of_int 14529495\<bar> < 1 / 2"
    unfolding abs_less_iff by simp
  show ?thesis unfolding kSqrt3_def float32_value_div[OF 1 2 3] by simp
qed












section \<open>Properties of the property setters\<close>

lemma allAxes_complete: "a \<in> set allAxes"
  by (cases a) (simp_all add: allAxes_def)

lemma axisProperties_foldl_updateAxis:
  "axisProperties (foldl (updateAxis f) c as) a
     = (if a \<in> set as then f (axisProperties c a) else axisProperties c a)"
  if "distinct as"
  using that
proof (induction as arbitrary: c)
  case Nil
  then show ?case by simp
next
  case (Cons b as)
  then show ?case by (auto simp: updateAxis_def)
qed

lemma axisProperties_all:
  "axisProperties (foldl (updateAxis f) c allAxes) a = f (axisProperties c a)"
proof -
  have "distinct allAxes" by (simp add: allAxes_def)
  then show ?thesis by (simp add: axisProperties_foldl_updateAxis allAxes_complete)
qed

text \<open>
  Claim C7. A deadzone above \<open>kAxisDeadzoneMax\<close>, a saturation above
  \<open>kAxisSaturationMax\<close> or a range whose minimum is not strictly below its maximum makes
  the setter return failure with the controller unchanged, so that the deadzone,
  saturation and range of every axis are as before, for the single-axis setters and for
  the all-axes setters alike. With valid arguments the setters succeed: the single-axis
  setter changes the named axis only, the all-axes setter every axis.
\<close>

theorem setters_validate_first:
  "(kAxisDeadzoneMax < dz \<longrightarrow>
      SetAxisDeadzone rnd a dz c = (False, c) \<and> SetAllAxisDeadzone rnd dz c = (False, c)) \<and>
   (kAxisSaturationMax < sat \<longrightarrow>
      SetAxisSaturation rnd a sat c = (False, c) \<and> SetAllAxisSaturation rnd sat c = (False, c)) \<and>
   (\<not> rmin < rmax \<longrightarrow>
      SetAxisRange rnd a rmin rmax c = (False, c) \<and> SetAllAxisRange rnd rmin rmax c = (False, c)) \<and>
   (dz \<le> kAxisDeadzoneMax \<longrightarrow>
      fst (SetAxisDeadzone rnd a dz c) \<and> fst (SetAllAxisDeadzone rnd dz c) \<and>
      GetAxisDeadzone (snd (SetAxisDeadzone rnd a dz c)) a = dz \<and>
      (\<forall>b. b \<noteq> a \<longrightarrow> axisProperties (snd (SetAxisDeadzone rnd a dz c)) b = axisProperties c b) \<and>
      (\<forall>b. GetAxisDeadzone (snd (SetAllAxisDeadzone rnd dz c)) b = dz)) \<and>
   (sat \<le> kAxisSaturationMax \<longrightarrow>
      fst (SetAxisSaturation rnd a sat c) \<and> fst (SetAllAxisSaturation rnd sat c) \<and>
      GetAxisSaturation (snd (SetAxisSaturation rnd a sat c)) a = sat \<and>
      (\<forall>b. b \<noteq> a \<longrightarrow> axisProperties (snd (SetAxisSaturation rnd a sat c)) b = axisProperties c b) \<and>
      (\<forall>b. GetAxisSaturation (snd (SetAllAxisSaturation rnd sat c)) b = sat)) \<and>
   (rmin < rmax \<longrightarrow>
      fst (SetAxisRange rnd a rmin rmax c) \<and> fst (SetAllAxisRange rnd rmin rmax c) \<and>
      GetAxisRange (snd (SetAxisRange rnd a rmin rmax c)) a = (rmin, rmax) \<and>
      (\<forall>b. b \<noteq> a \<longrightarrow> axisProperties (snd (SetAxisRange rnd a rmin rmax c)) b = axisProperties c b) \<and>
      (\<forall>b. GetAxisRange (snd (SetAllAxisRange rnd rmin rmax c)) b = (rmin, rmax)))"
proof (intro conjI impI)
  assume "kAxisDeadzoneMax < dz"
  then show "SetAxisDeadzone rnd a dz c = (False, c)" "SetAllAxisDeadzone rnd dz c = (False, c)"
    by (simp_all add: SetAxisDeadzone_def SetAllAxisDeadzone_def)
next
  assume "kAxisSaturationMax < sat"
  then show "SetAxisSaturation rnd a sat c = (False, c)"
    "SetAllAxisSaturation rnd sat c = (False, c)"
    by (simp_all add: SetAxisSaturation_def SetAllAxisSaturation_def)
next
  assume "\<not> rmin < rmax"
  then show "SetAxisRange rnd a rmin rmax c = (False, c)"
    "SetAllAxisRange rnd rmin rmax c = (False, c)"
    by (simp_all add: SetAxisRange_def SetAllAxisRange_def)
next
  assume v: "dz \<le> kAxisDeadzoneMax"
  then show "fst (SetAxisDeadzone rnd a dz c)" "fst (SetAllAxisDeadzone rnd dz c)"
    "GetAxisDeadzone (snd (SetAxisDeadzone rnd a dz c)) a = dz"
    "\<forall>b. b \<noteq> a \<longrightarrow> axisProperties (snd (SetAxisDeadzone rnd a dz c)) b = axisProperties c b"
    by (simp_all add: SetAxisDeadzone_def SetAllAxisDeadzone_def kAxisDeadzoneMin_def
        GetAxisDeadzone_def reapplyProperties_def updateAxis_def)
  show "\<forall>b. GetAxisDeadzone (snd (SetAllAxisDeadzone rnd dz c)) b = dz"
    using v by (simp add: SetAllAxisDeadzone_def kAxisDeadzoneMin_def GetAxisDeadzone_def
        reapplyProperties_def axisProperties_all)
next
  assume v: "sat \<le> kAxisSaturationMax"
  then show "fst (SetAxisSaturation rnd a sat c)" "fst (SetAllAxisSaturation rnd sat c)"
    "GetAxisSaturation (snd (SetAxisSaturation rnd a sat c)) a = sat"
    "\<forall>b. b \<noteq> a \<longrightarrow> axisProperties (snd (SetAxisSaturation rnd a sat c)) b = axisProperties c b"
    by (simp_all add: SetAxisSaturation_def SetAllAxisSaturation_def kAxisSaturationMin_def
        GetAxisSaturation_def reapplyProperties_def updateAxis_def)
  show "\<forall>b. GetAxisSaturation (snd (SetAllAxisSaturation rnd sat c)) b = sat"
    using v by (simp add: SetAllAxisSaturation_def kAxisSaturationMin_def GetAxisSaturation_def
        reapplyProperties_def axisProperties_all)
next
  assume v: "rmin < rmax"
  then show "fst (SetAxisRange rnd a rmin rmax c)" "fst (SetAllAxisRange rnd rmin rmax c)"
    "GetAxisRange (snd (SetAxisRange rnd a rmin rmax c)) a = (rmin, rmax)"
    "\<forall>b. b \<noteq> a \<longrightarrow> axisProperties (snd (SetAxisRange rnd a rmin rmax c)) b = axisProperties c b"
    by (simp_all add: SetAxisRange_def SetAllAxisRange_def
        GetAxisRange_def reapplyProperties_def updateAxis_def)
  show "\<forall>b. GetAxisRange (snd (SetAllAxisRange rnd rmin rmax c)) b = (rmin, rmax)"
    using v by (simp add: SetAllAxisRange_def GetAxisRange_def
        reapplyProperties_def axisProperties_all)
qed

text \<open>
  The theorem at the values of the tests: deadzone \<open>kAxisDeadzoneMax + 1\<close> on RotX, the
  range \<open>(50000, 50000)\<close> on Y, and the valid range \<open>(-100, 50000)\<close> on Y.
\<close>

theorem setters_validate_first_witness:
  "kAxisDeadzoneMax < kAxisDeadzoneMax + 1 \<and>
   SetAxisDeadzone round RotX (kAxisDeadzoneMax + 1) (newVirtualController round 0)
     = (False, newVirtualController round 0) \<and>
   SetAllAxisDeadzone round (kAxisDeadzoneMax + 1) (newVirtualController round 0)
     = (False, newVirtualController round 0) \<and>
   SetAxisRange round Y 50000 50000 (newVirtualController round 0)
     = (False, newVirtualController round 0) \<and>
   SetAllAxisRange round 50000 50000 (newVirtualController round 0)
     = (False, newVirtualController round 0) \<and>
   GetAxisRange (snd (SetAxisRange round Y (- 100) 50000 (newVirtualController round 0))) Y
     = (- 100, 50000)"
  using setters_validate_first[of "kAxisDeadzoneMax + 1" round RotX "newVirtualController round 0"
      0 50000 50000]
    setters_validate_first[of 0 round Y "newVirtualController round 0" 0 50000 50000]
    setters_validate_first[of 0 round Y "newVirtualController round 0" 0 "- 100" 50000]
  by simp


section \<open>Properties of the force feedback registration\<close>

lemma consistent_empty: "consistent (emptySystem available)"
  by (simp add: consistent_def emptySystem_def)

lemma consistent_create:
  assumes "consistent sys"
  shows "consistent (CreateVirtualController rnd h cid sys)"
proof (cases "h \<in> dom (virtualControllers sys)")
  case True
  then show ?thesis using assms by (simp add: CreateVirtualController_def)
next
  case False
  then have n: "virtualControllers sys h = None" by blast
  have nr: "\<not> ffRegistered (newVirtualController rnd cid)"
    by (simp add: newVirtualController_def)
  show ?thesis
    using assms n nr False
    unfolding consistent_def CreateVirtualController_def
    by (auto split: if_splits)
qed

lemma consistent_register:
  assumes "consistent sys"
  shows "consistent (snd (ForceFeedbackRegister h sys))"
proof (cases "virtualControllers sys h")
  case None
  then show ?thesis using assms by (simp add: ForceFeedbackRegister_def)
next
  case (Some vc)
  show ?thesis
  proof (cases "ffRegistered vc \<or> \<not> forceFeedbackAvailable sys (controllerIdentifier vc)")
    case True
    then show ?thesis using assms Some by (auto simp: ForceFeedbackRegister_def)
  next
    case False
    then have nr: "\<not> ffRegistered vc" and av: "forceFeedbackAvailable sys (controllerIdentifier vc)"
      by simp_all
    have notin: "h \<notin> set (registeredForForceFeedback sys cid)" for cid
      using assms Some nr by (auto simp: consistent_def)
    show ?thesis
      using assms Some nr av notin
      unfolding consistent_def ForceFeedbackRegister_def
      by (auto split: if_splits)
  qed
qed

lemma consistent_unregister:
  assumes "consistent sys"
  shows "consistent (ForceFeedbackUnregister h sys)"
proof (cases "virtualControllers sys h")
  case None
  then show ?thesis using assms by (simp add: ForceFeedbackUnregister_def)
next
  case (Some vc)
  show ?thesis
  proof (cases "ffRegistered vc")
    case False
    then show ?thesis using assms Some by (simp add: ForceFeedbackUnregister_def)
  next
    case True
    have only: "h \<in> set (registeredForForceFeedback sys cid) \<longleftrightarrow> cid = controllerIdentifier vc"
      for cid
      using assms Some True by (auto simp: consistent_def)
    show ?thesis
      using assms Some True only
      unfolding consistent_def ForceFeedbackUnregister_def
      by (auto split: if_splits simp: distinct_removeAll)
  qed
qed

lemma unregister_not_registered:
  "\<not> ForceFeedbackIsRegistered h (ForceFeedbackUnregister h sys)"
  by (auto simp: ForceFeedbackIsRegistered_def ForceFeedbackUnregister_def
      split: option.splits)

lemma unregister_not_in_registry:
  assumes "consistent sys"
  shows "h \<notin> set (registeredForForceFeedback (ForceFeedbackUnregister h sys) cid)"
proof -
  have c: "consistent (ForceFeedbackUnregister h sys)"
    using assms by (rule consistent_unregister)
  have "\<not> ForceFeedbackIsRegistered h (ForceFeedbackUnregister h sys)"
    by (rule unregister_not_registered)
  then show ?thesis
    using c by (auto simp: consistent_def ForceFeedbackIsRegistered_def split: option.splits)
qed

lemma consistent_destroy:
  assumes "consistent sys"
  shows "consistent (DestroyVirtualController h sys)"
proof -
  let ?u = "ForceFeedbackUnregister h sys"
  have c: "consistent ?u" using assms by (rule consistent_unregister)
  have n: "h \<notin> set (registeredForForceFeedback ?u cid)" for cid
    using assms by (rule unregister_not_in_registry)
  show ?thesis
    using c n unfolding consistent_def DestroyVirtualController_def Let_def
    by (auto split: if_splits)
qed

lemma consistent_run: "consistent (runSystem rnd available ops)"
proof -
  have "consistent (foldl (applySystemOp rnd) sys ops)" if "consistent sys" for sys
    using that
  proof (induction ops arbitrary: sys)
    case Nil
    then show ?case by simp
  next
    case (Cons op ops)
    have "consistent (applySystemOp rnd sys op)"
      using Cons.prems
      by (cases op)
         (simp_all add: consistent_create consistent_register consistent_unregister
            consistent_destroy)
    then show ?case using Cons.IH by simp
  qed
  then show ?thesis unfolding runSystem_def using consistent_empty by blast
qed

lemma register_registered:
  assumes "ForceFeedbackIsRegistered h sys"
  shows "ForceFeedbackRegister h sys = (True, sys)"
  using assms
  by (auto simp: ForceFeedbackIsRegistered_def ForceFeedbackRegister_def split: option.splits)

lemma register_result:
  "fst (ForceFeedbackRegister h sys)
     \<longleftrightarrow> ForceFeedbackIsRegistered h (snd (ForceFeedbackRegister h sys))"
  by (auto simp: ForceFeedbackIsRegistered_def ForceFeedbackRegister_def split: option.splits)

lemma register_idempotent:
  "ForceFeedbackRegister h (snd (ForceFeedbackRegister h sys)) = ForceFeedbackRegister h sys"
proof (cases "fst (ForceFeedbackRegister h sys)")
  case True
  then have "ForceFeedbackIsRegistered h (snd (ForceFeedbackRegister h sys))"
    by (simp add: register_result)
  then have "ForceFeedbackRegister h (snd (ForceFeedbackRegister h sys))
      = (True, snd (ForceFeedbackRegister h sys))"
    by (rule register_registered)
  then show ?thesis using True by (simp add: prod_eq_iff)
next
  case False
  then have "snd (ForceFeedbackRegister h sys) = sys"
    by (auto simp: ForceFeedbackRegister_def split: option.splits if_splits)
  then show ?thesis by simp
qed

lemma count_list_distinct:
  "distinct xs \<Longrightarrow> count_list xs x = (if x \<in> set xs then 1 else 0)"
  by (induction xs) auto

lemma registered_once:
  assumes "consistent sys"
  shows "count_list (registeredForForceFeedback sys cid) h
           = (if IsVirtualControllerRegisteredForForceFeedback cid h sys then 1 else 0)"
proof -
  have d: "distinct (registeredForForceFeedback sys cid)"
    using assms by (simp add: consistent_def)
  show ?thesis
    using count_list_distinct[OF d, of h]
    by (simp add: IsVirtualControllerRegisteredForForceFeedback_def)
qed

lemma registry_iff_registered:
  assumes "consistent sys"
  shows "IsVirtualControllerRegisteredForForceFeedback cid h sys
     \<longleftrightarrow> ForceFeedbackGetDevice h sys = Some cid"
  using assms
  by (auto simp: consistent_def IsVirtualControllerRegisteredForForceFeedback_def
      ForceFeedbackGetDevice_def split: option.splits)

lemma unregister_register:
  assumes "consistent sys" "\<not> ForceFeedbackIsRegistered h sys"
  shows "ForceFeedbackUnregister h (snd (ForceFeedbackRegister h sys)) = sys"
proof (cases "virtualControllers sys h")
  case None
  then show ?thesis by (simp add: ForceFeedbackRegister_def ForceFeedbackUnregister_def)
next
  case (Some vc)
  then have nr: "\<not> ffRegistered vc" using assms(2) by (simp add: ForceFeedbackIsRegistered_def)
  show ?thesis
  proof (cases "forceFeedbackAvailable sys (controllerIdentifier vc)")
    case False
    then show ?thesis
      using Some nr by (simp add: ForceFeedbackRegister_def ForceFeedbackUnregister_def)
  next
    case True
    have notin: "h \<notin> set (registeredForForceFeedback sys (controllerIdentifier vc))"
      using assms(1) Some nr by (auto simp: consistent_def)
    have vceq: "vc\<lparr>ffRegistered := False\<rparr> = vc" using nr by simp
    have m: "(virtualControllers sys)(h \<mapsto> vc) = virtualControllers sys"
      using Some by (simp add: map_upd_triv)
    have r: "(registeredForForceFeedback sys)
               (controllerIdentifier vc := registeredForForceFeedback sys (controllerIdentifier vc))
             = registeredForForceFeedback sys"
      by simp
    show ?thesis
      using Some nr True notin
      by (simp add: ForceFeedbackRegister_def ForceFeedbackUnregister_def vceq m)
  qed
qed

lemma destroy_effect:
  assumes "consistent sys"
  shows "virtualControllers (DestroyVirtualController h sys) h = None \<and>
         \<not> IsVirtualControllerRegisteredForForceFeedback cid h (DestroyVirtualController h sys)"
  using unregister_not_in_registry[OF assms, of h cid]
  by (simp add: DestroyVirtualController_def Let_def
      IsVirtualControllerRegisteredForForceFeedback_def)

text \<open>
  Claim C6. In every state the system reaches from the empty one by creating, registering,
  unregistering and destroying virtual controllers: registering an already registered
  controller succeeds and changes nothing; a second call of register returns what the
  first returned and leaves the state of the first; a controller is recorded at most once
  by any physical controller, and exactly once, by its own, after a successful register;
  unregistering leaves the controller unregistered, without a device and absent from every
  registry, and undoes a register of an unregistered controller; destroying a registered
  controller removes it from every registry.
\<close>

theorem force_feedback_registration:
  fixes rnd available ops h
  defines "sys \<equiv> runSystem rnd available ops"
  shows
    "(ForceFeedbackIsRegistered h sys \<longrightarrow> ForceFeedbackRegister h sys = (True, sys)) \<and>
     ForceFeedbackRegister h (snd (ForceFeedbackRegister h sys)) = ForceFeedbackRegister h sys \<and>
     (\<forall>cid. count_list (registeredForForceFeedback sys cid) h \<le> 1) \<and>
     (fst (ForceFeedbackRegister h sys) \<longrightarrow>
        ForceFeedbackIsRegistered h (snd (ForceFeedbackRegister h sys)) \<and>
        (\<exists>cid. ForceFeedbackGetDevice h (snd (ForceFeedbackRegister h sys)) = Some cid \<and>
           count_list (registeredForForceFeedback (snd (ForceFeedbackRegister h sys)) cid) h = 1)) \<and>
     \<not> ForceFeedbackIsRegistered h (ForceFeedbackUnregister h sys) \<and>
     ForceFeedbackGetDevice h (ForceFeedbackUnregister h sys) = None \<and>
     (\<forall>cid. \<not> IsVirtualControllerRegisteredForForceFeedback cid h (ForceFeedbackUnregister h sys)) \<and>
     (\<not> ForceFeedbackIsRegistered h sys \<longrightarrow>
        ForceFeedbackUnregister h (snd (ForceFeedbackRegister h sys)) = sys) \<and>
     (\<forall>cid. \<not> IsVirtualControllerRegisteredForForceFeedback cid h
              (DestroyVirtualController h (snd (ForceFeedbackRegister h sys)))) \<and>
     virtualControllers (DestroyVirtualController h (snd (ForceFeedbackRegister h sys))) h = None"
proof -
  have c: "consistent sys" unfolding sys_def by (rule consistent_run)
  let ?r = "snd (ForceFeedbackRegister h sys)"
  let ?u = "ForceFeedbackUnregister h sys"
  have cr: "consistent ?r" using c by (rule consistent_register)
  have cu: "consistent ?u" using c by (rule consistent_unregister)
  have once: "\<forall>cid. count_list (registeredForForceFeedback sys cid) h \<le> 1"
    using registered_once[OF c] by simp
  have reg: "fst (ForceFeedbackRegister h sys) \<longrightarrow>
        ForceFeedbackIsRegistered h ?r \<and>
        (\<exists>cid. ForceFeedbackGetDevice h ?r = Some cid \<and>
           count_list (registeredForForceFeedback ?r cid) h = 1)"
  proof
    assume "fst (ForceFeedbackRegister h sys)"
    then have ir: "ForceFeedbackIsRegistered h ?r" by (simp add: register_result)
    then obtain cid where g: "ForceFeedbackGetDevice h ?r = Some cid"
      by (auto simp: ForceFeedbackIsRegistered_def ForceFeedbackGetDevice_def
          split: option.splits)
    then have "IsVirtualControllerRegisteredForForceFeedback cid h ?r"
      using registry_iff_registered[OF cr] by simp
    then have "count_list (registeredForForceFeedback ?r cid) h = 1"
      using registered_once[OF cr] by simp
    with ir g show "ForceFeedbackIsRegistered h ?r \<and>
        (\<exists>cid. ForceFeedbackGetDevice h ?r = Some cid \<and>
           count_list (registeredForForceFeedback ?r cid) h = 1)" by blast
  qed
  have un: "\<not> ForceFeedbackIsRegistered h ?u" by (rule unregister_not_registered)
  then have ud: "ForceFeedbackGetDevice h ?u = None"
    by (auto simp: ForceFeedbackIsRegistered_def ForceFeedbackGetDevice_def split: option.splits)
  have ur: "\<forall>cid. \<not> IsVirtualControllerRegisteredForForceFeedback cid h ?u"
    using unregister_not_in_registry[OF c]
    by (simp add: IsVirtualControllerRegisteredForForceFeedback_def)
  show ?thesis
    using register_registered[of h sys] register_idempotent[of h sys] once reg un ud ur
      unregister_register[OF c] destroy_effect[OF cr]
    by blast
qed

text \<open>
  The theorem at a system with two virtual controllers of physical controller 1, the
  second registered: the first one registers, is recorded once, and is removed from the
  registry by its destruction.
\<close>

theorem force_feedback_registration_witness:
  "\<not> ForceFeedbackIsRegistered 7 (runSystem round testAvailable testSystemOps) \<and>
   fst (ForceFeedbackRegister 7 (runSystem round testAvailable testSystemOps)) \<and>
   ForceFeedbackIsRegistered 7
     (snd (ForceFeedbackRegister 7 (runSystem round testAvailable testSystemOps))) \<and>
   ForceFeedbackUnregister 7
     (snd (ForceFeedbackRegister 7 (runSystem round testAvailable testSystemOps)))
     = runSystem round testAvailable testSystemOps \<and>
   \<not> IsVirtualControllerRegisteredForForceFeedback 1 7
       (DestroyVirtualController 7
          (snd (ForceFeedbackRegister 7 (runSystem round testAvailable testSystemOps))))"
proof -
  let ?sys = "runSystem round testAvailable testSystemOps"
  have n: "\<not> ForceFeedbackIsRegistered 7 ?sys"
    by (simp add: runSystem_def testSystemOps_def emptySystem_def CreateVirtualController_def
        ForceFeedbackRegister_def ForceFeedbackIsRegistered_def newVirtualController_def
        testAvailable_def)
  have f: "fst (ForceFeedbackRegister 7 ?sys)"
    by (simp add: runSystem_def testSystemOps_def emptySystem_def CreateVirtualController_def
        ForceFeedbackRegister_def newVirtualController_def testAvailable_def)
  from force_feedback_registration[of 7 round testAvailable testSystemOps] n f
  show ?thesis by blast
qed


end
